theory Spec2Isabelle
  imports Complex_Main
begin

section \<open>Tensors, errors and the library calls of \<open>paperlab/zoo/vit/exp.py\<close>\<close>

text \<open>
  The analysis functions of \<open>exp.py\<close> (\<open>attn_rollout\<close>, \<open>get_attention_maps\<close>,
  \<open>get_attention_distance\<close>) work on dense arrays. An array of rank k is a list nested k
  deep, outermost axis first, so \<open>t ! s ! i ! j\<close> is the source's \<open>t[s, i, j]\<close>. Entries are
  real numbers: arithmetic is exact, and the square root of the pixel distance is the real
  square root.

  A nested list does not record the extents that follow an axis of extent 0 (an array of
  shape (0, n, n) is the empty list); such extents are read as 0.
\<close>

type_synonym tensor2 = "real list list"
type_synonym tensor3 = "real list list list"
type_synonym tensor4 = "real list list list list"
type_synonym tensor5 = "real list list list list list"

text \<open>
  The exceptions. The first five are what Python, torch and einops raise on the paths of
  \<open>exp.py\<close>. The last three are the error classes the specification names; \<open>exp.py\<close>
  defines and raises none of them.
\<close>

datatype error =
    IndexError
  | UnboundLocalError
  | ZeroDivisionError
  | RuntimeError
  | EinopsError
  | InvalidInputError
  | ConfigurationError
  | EmptyCacheError

text \<open>The extent of the second axis, read at the first element (\<open>t.shape[1]\<close>).\<close>

definition extent1 :: "'a list list \<Rightarrow> nat" where
  "extent1 t = (case t of [] \<Rightarrow> 0 | r # _ \<Rightarrow> length r)"

definition shape3 :: "'a list list list \<Rightarrow> nat \<times> nat \<times> nat" where
  "shape3 t = (length t, extent1 t, extent1 (case t of [] \<Rightarrow> [] | m # _ \<Rightarrow> m))"

text \<open>
  Broadcasting, as torch does it for \<open>+\<close>, \<open>*\<close> and for equal subscripts of \<open>einsum\<close>: two
  extents are compatible when they are equal or one of them is 1; an axis of extent 1 is
  read at index 0 whatever the index.
\<close>

definition bdim :: "nat \<Rightarrow> nat \<Rightarrow> nat option" where
  "bdim a b = (if a = b then Some a else if a = 1 then Some b
               else if b = 1 then Some a else None)"

definition bidx :: "nat \<Rightarrow> nat \<Rightarrow> nat" where
  "bidx d i = (if d = 1 then 0 else i)"

text \<open>\<open>torch.eye(n)\<close>.\<close>

definition eye :: "nat \<Rightarrow> tensor2" where
  "eye n = map (\<lambda>i. map (\<lambda>k. if i = k then 1 else 0) [0..<n]) [0..<n]"

section \<open>Attention rollout (\<open>attn_rollout\<close>, lines 252-264)\<close>

text \<open>
  The lambda of line 262, \<open>0.5 * x + 0.5 * torch.eye(n)\<close>: \<open>x\<close> of shape (b, n', m') is
  added to the (n, n) identity, broadcast over the sample axis and over axes of extent 1.
  torch raises a RuntimeError when the extents are not compatible.
\<close>

definition residual :: "nat \<Rightarrow> tensor3 \<Rightarrow> error + tensor3" where
  "residual n x =
     (case shape3 x of (b, n', m') \<Rightarrow>
        (case (bdim n' n, bdim m' n) of
           (Some N, Some K) \<Rightarrow>
             Inr (map (\<lambda>s. map (\<lambda>i. map (\<lambda>k.
                    0.5 * (x ! s ! bidx n' i ! bidx m' k)
                    + 0.5 * (eye n ! bidx n i ! bidx n k))
                  [0..<K]) [0..<N]) [0..<b])
         | _ \<Rightarrow> Inl RuntimeError))"

text \<open>
  \<open>torch.einsum('bij, bjk -> bik', rollout, attn)\<close>: the batched matrix product. The
  extents under \<open>b\<close> and under \<open>j\<close> are broadcast against each other.
\<close>

definition einsum_bij_bjk :: "tensor3 \<Rightarrow> tensor3 \<Rightarrow> error + tensor3" where
  "einsum_bij_bjk r a =
     (case shape3 r of (b1, i1, j1) \<Rightarrow>
      case shape3 a of (b2, j2, k2) \<Rightarrow>
        (case (bdim b1 b2, bdim j1 j2) of
           (Some B, Some J) \<Rightarrow>
             Inr (map (\<lambda>s. map (\<lambda>i. map (\<lambda>k.
                    sum_list (map (\<lambda>j. r ! bidx b1 s ! i ! bidx j1 j
                                       * a ! bidx b2 s ! bidx j2 j ! k) [0..<J]))
                  [0..<k2]) [0..<i1]) [0..<B])
         | _ \<Rightarrow> Inl RuntimeError))"

text \<open>
  The loop of lines 262-263. \<open>map\<close> is lazy in Python, so the residual correction of a
  layer is computed just before that layer's product.
\<close>

fun rollout_loop :: "nat \<Rightarrow> tensor3 \<Rightarrow> tensor3 list \<Rightarrow> error + tensor3" where
  "rollout_loop n rollout [] = Inr rollout"
| "rollout_loop n rollout (x # xs) =
     (case residual n x of
        Inl e \<Rightarrow> Inl e
      | Inr attn \<Rightarrow>
          (case einsum_bij_bjk rollout attn of
             Inl e \<Rightarrow> Inl e
           | Inr rollout' \<Rightarrow> rollout_loop n rollout' xs))"

text \<open>
  \<open>attn_rollout\<close>. Line 260 reads \<open>attn_matrices[0].shape\<close>, which raises IndexError on
  the empty list; line 261 repeats the identity over the sample axis.
\<close>

definition attn_rollout :: "tensor3 list \<Rightarrow> error + tensor3" where
  "attn_rollout attn_matrices =
     (case attn_matrices of
        [] \<Rightarrow> Inl IndexError
      | a0 # _ \<Rightarrow>
          (case shape3 a0 of (b, n, _) \<Rightarrow>
             rollout_loop n (replicate b (eye n)) attn_matrices))"

section \<open>The attention cache and the model\<close>

text \<open>
  \<open>t.shape\<close> of a rank-4 array, read like \<open>shape3\<close>.
\<close>

definition shape4 :: "'a list list list list \<Rightarrow> nat \<times> nat \<times> nat \<times> nat" where
  "shape4 t = (length t, shape3 (case t of [] \<Rightarrow> [] | x # _ \<Rightarrow> x))"

text \<open>
  Modelled from the spec: the class \<open>MultiHeadAttention\<close> of \<open>models.py\<close>, which is not
  among the sources. Section 4.1 of the specification gives each attention module a cache
  with a flag and an ordered storage: enabling and disabling set the flag, disabling does
  not clear, a forward pass appends its attention tensor exactly when the flag is set, and
  clearing empties the storage. \<open>exp.py\<close> reads the storage as
  \<open>module.cache['attn_map']\<close>.
\<close>

record MultiHeadAttention =
  cache_enabled :: bool
  cache_attn_map :: "tensor4 list"

definition enable_cache :: "MultiHeadAttention \<Rightarrow> MultiHeadAttention" where
  "enable_cache m = m\<lparr>cache_enabled := True\<rparr>"

definition disable_cache :: "MultiHeadAttention \<Rightarrow> MultiHeadAttention" where
  "disable_cache m = m\<lparr>cache_enabled := False\<rparr>"

definition clear_cache :: "MultiHeadAttention \<Rightarrow> MultiHeadAttention" where
  "clear_cache m = m\<lparr>cache_attn_map := []\<rparr>"

definition record_attn :: "MultiHeadAttention \<Rightarrow> tensor4 \<Rightarrow> MultiHeadAttention" where
  "record_attn m t =
     (if cache_enabled m then m\<lparr>cache_attn_map := cache_attn_map m @ [t]\<rparr> else m)"

text \<open>
  Modelled from the spec: the class \<open>ViTClassifier\<close> of \<open>models.py\<close>, as far as \<open>exp.py\<close>
  uses it. \<open>attention_modules\<close> are the modules that \<open>model.modules()\<close> yields and that are
  instances of \<open>MultiHeadAttention\<close>, in that order; \<open>patch_height\<close> and \<open>patch_width\<close> are
  the fields of \<open>model.transformer_encoder\<close>. The network itself is outside the
  specification (section 1): \<open>attention model l img\<close> stands for the attention tensor, of
  shape (sample, head, token, token), that attention module \<open>l\<close> computes for the batch
  \<open>img\<close>. By section 6 the only effect of a forward pass that matters here is that every
  attention module records its tensor.
\<close>

record ViTClassifier =
  attention_modules :: "MultiHeadAttention list"
  patch_height :: nat
  patch_width :: nat
  attention :: "nat \<Rightarrow> tensor4 \<Rightarrow> tensor4"

definition transformer_encoder :: "ViTClassifier \<Rightarrow> tensor4 \<Rightarrow> ViTClassifier" where
  "transformer_encoder model img =
     model\<lparr>attention_modules :=
       map (\<lambda>(l, m). record_attn m (attention model l img))
         (enumerate 0 (attention_modules model))\<rparr>"

section \<open>The steps shared by \<open>get_attention_maps\<close> and \<open>get_attention_distance\<close>\<close>

text \<open>Lines 145-147 and 212-214: every attention module is switched to recording.\<close>

definition enable_all :: "ViTClassifier \<Rightarrow> ViTClassifier" where
  "enable_all model =
     model\<lparr>attention_modules := map enable_cache (attention_modules model)\<rparr>"

text \<open>
  Lines 150-155 and 218-225: the encoder runs on every batch of the data loader, in order;
  the labels are ignored.
\<close>

definition run_encoder :: "ViTClassifier \<Rightarrow> (tensor4 \<times> 'l) list \<Rightarrow> ViTClassifier" where
  "run_encoder model dataloader =
     foldl (\<lambda>m (img, _). transformer_encoder m img) model dataloader"

text \<open>
  \<open>torch.cat(ts, dim=0)\<close> on rank-4 arrays: a RuntimeError on the empty list and when the
  extents after the first axis differ; otherwise the arrays one after the other along the
  sample axis.
\<close>

definition torch_cat :: "'a list list list list list \<Rightarrow> error + 'a list list list list" where
  "torch_cat ts =
     (case ts of
        [] \<Rightarrow> Inl RuntimeError
      | t # _ \<Rightarrow>
          if list_all (\<lambda>u. snd (shape4 u) = snd (shape4 t)) ts then Inr (concat ts)
          else Inl RuntimeError)"

text \<open>
  The retrieval loops of lines 158-164 and 229-236. For each attention module in order:
  concatenate its cache, post-process the result with \<open>f\<close> (the identity on line 162, the
  mean over heads on line 233), then disable and clear the module. An exception leaves the
  modules from the failing one on as they were.
\<close>

fun retrieve_cached ::
  "(tensor4 \<Rightarrow> 'a) \<Rightarrow> MultiHeadAttention list \<Rightarrow> (error + 'a list) \<times> MultiHeadAttention list"
where
  "retrieve_cached f [] = (Inr [], [])"
| "retrieve_cached f (m # ms) =
     (case torch_cat (cache_attn_map m) of
        Inl e \<Rightarrow> (Inl e, m # ms)
      | Inr t \<Rightarrow>
          (case retrieve_cached f ms of
             (Inl e, ms') \<Rightarrow> (Inl e, clear_cache (disable_cache m) # ms')
           | (Inr ts, ms') \<Rightarrow> (Inr (f t # ts), clear_cache (disable_cache m) # ms')))"

section \<open>Attention maps (\<open>get_attention_maps\<close>, lines 200-249)\<close>

text \<open>
  \<open>torch.mean(t, dim=1)\<close> of line 233: the mean over the head axis. With no head there is
  no entry to compute, see the convention on extents above.
\<close>

definition mean_dim1 :: "tensor4 \<Rightarrow> tensor3" where
  "mean_dim1 t =
     (case shape4 t of (b, num_head, n, m) \<Rightarrow>
        map (\<lambda>x. map (\<lambda>i. map (\<lambda>k.
               sum_list (map (\<lambda>h. x ! h ! i ! k) [0..<num_head]) / real num_head)
             [0..<m]) [0..<n]) t)"

text \<open>
  \<open>rollout[:, 0, 1:]\<close> of line 244: the row of the class token without its first column.
  Index 0 is out of range when the token axis has extent 0.
\<close>

definition cls_row :: "tensor3 \<Rightarrow> error + tensor2" where
  "cls_row rollout =
     (case shape3 rollout of (b, n, m) \<Rightarrow>
        if n = 0 then Inl IndexError else Inr (map (\<lambda>x. drop 1 (x ! 0)) rollout))"

text \<open>
  \<open>einops.repeat(x, 'b (nh nw) -> b (nh ph) (nw pw)', nh, nw, ph, pw)\<close> of lines 244-247.
  einops raises when the second axis of \<open>x\<close> does not have extent \<open>nh * nw\<close>. Pixel
  \<open>(i, j)\<close> takes the value of patch \<open>(i div ph, j div pw)\<close>.
\<close>

definition einops_repeat_map ::
  "nat \<Rightarrow> nat \<Rightarrow> nat \<Rightarrow> nat \<Rightarrow> tensor2 \<Rightarrow> error + tensor3" where
  "einops_repeat_map nh nw ph pw x =
     (if extent1 x \<noteq> nh * nw then Inl EinopsError
      else Inr (map (\<lambda>v. map (\<lambda>i. map (\<lambda>j. v ! ((i div ph) * nw + j div pw))
                  [0..<nw * pw]) [0..<nh * ph]) x))"

text \<open>
  Lines 241-247: the patch grid is read off the image extents with Python's floor
  division, which raises ZeroDivisionError on a zero patch extent; no test of divisibility
  is made.
\<close>

definition attn_map_pixel :: "nat \<Rightarrow> nat \<Rightarrow> tensor4 \<Rightarrow> tensor3 \<Rightarrow> error + tensor3" where
  "attn_map_pixel ph pw images rollout =
     (case shape4 images of (_, _, height, width) \<Rightarrow>
        if ph = 0 \<or> pw = 0 then Inl ZeroDivisionError
        else
          let nh = height div ph; nw = width div pw
          in (case cls_row rollout of
                Inl e \<Rightarrow> Inl e
              | Inr x \<Rightarrow> einops_repeat_map nh nw ph pw x))"

text \<open>
  \<open>get_attention_maps\<close>. The result is the value returned or the exception raised,
  together with the model as the call leaves it. Line 226 concatenates the images before
  any cache is read.
\<close>

definition get_attention_maps ::
  "ViTClassifier \<Rightarrow> (tensor4 \<times> 'l) list \<Rightarrow> (error + tensor3 \<times> tensor4) \<times> ViTClassifier" where
  "get_attention_maps model dataloader =
     (let model' = run_encoder (enable_all model) dataloader
      in case torch_cat (map fst dataloader) of
           Inl e \<Rightarrow> (Inl e, model')
         | Inr images \<Rightarrow>
             (case retrieve_cached mean_dim1 (attention_modules model') of
                (Inl e, ms) \<Rightarrow> (Inl e, model'\<lparr>attention_modules := ms\<rparr>)
              | (Inr attn_maps, ms) \<Rightarrow>
                  (case attn_rollout attn_maps of
                     Inl e \<Rightarrow> (Inl e, model'\<lparr>attention_modules := ms\<rparr>)
                   | Inr rollout \<Rightarrow>
                       (case attn_map_pixel (patch_height model) (patch_width model)
                               images rollout of
                          Inl e \<Rightarrow> (Inl e, model'\<lparr>attention_modules := ms\<rparr>)
                        | Inr pixel \<Rightarrow>
                            (Inr (pixel, images), model'\<lparr>attention_modules := ms\<rparr>)))))"

section \<open>Mean attention distance (\<open>get_attention_distance\<close>, lines 140-197)\<close>

text \<open>
  \<open>_pixel_dist_matrix\<close>, lines 172-182: entry \<open>[x, y, xx, yy]\<close> is the Euclidean distance
  between the pixels \<open>(x, y)\<close> and \<open>(xx, yy)\<close>. The differences are taken on integers.
\<close>

definition pixel_dist_matrix :: "nat \<Rightarrow> nat \<Rightarrow> tensor4" where
  "pixel_dist_matrix h w =
     map (\<lambda>x. map (\<lambda>y. map (\<lambda>xx. map (\<lambda>yy.
            sqrt (real_of_int ((int x - int xx)\<^sup>2 + (int y - int yy)\<^sup>2)))
          [0..<w]) [0..<h]) [0..<w]) [0..<h]"

text \<open>
  \<open>attn_maps[i][:, j, 1:, 1:]\<close> of line 189: head \<open>j\<close> without the class token. The index
  \<open>j\<close> is out of range when the layer has no such head.
\<close>

definition head_patch_attn :: "tensor4 \<Rightarrow> nat \<Rightarrow> error + tensor3" where
  "head_patch_attn t j =
     (case shape4 t of (b, num_head, n, m) \<Rightarrow>
        if j < num_head then Inr (map (\<lambda>x. map (drop 1) (drop 1 (x ! j))) t)
        else Inl IndexError)"

text \<open>
  \<open>einops.repeat\<close> with the pattern
  \<open>'b (nhx nwx) (nhy nwy) -> b (nhx phx) (nwx pwx) (nhy phy) (nwy pwy)'\<close> of lines
  189-192: both patch axes are replicated to pixels.
\<close>

definition einops_repeat_pairs ::
  "nat \<Rightarrow> nat \<Rightarrow> nat \<Rightarrow> nat \<Rightarrow> tensor3 \<Rightarrow> error + tensor5" where
  "einops_repeat_pairs nh nw ph pw a =
     (case shape3 a of (b, p, q) \<Rightarrow>
        if p \<noteq> nh * nw \<or> q \<noteq> nh * nw then Inl EinopsError
        else Inr (map (\<lambda>x. map (\<lambda>x1. map (\<lambda>y1. map (\<lambda>x2. map (\<lambda>y2.
                    x ! ((x1 div ph) * nw + y1 div pw) ! ((x2 div ph) * nw + y2 div pw))
                  [0..<nw * pw]) [0..<nh * ph]) [0..<nw * pw]) [0..<nh * ph]) a))"

text \<open>
  Line 194, \<open>head_attn_pixel * torch.unsqueeze(pixel_distance, dim=0)\<close>: the product of
  an array of shape (b, hh, ww, hh, ww) and one of shape (1, height, width, height,
  width), with torch's broadcasting.
\<close>

definition weight_by_distance ::
  "nat \<Rightarrow> nat \<Rightarrow> nat \<Rightarrow> nat \<Rightarrow> tensor5 \<Rightarrow> tensor4 \<Rightarrow> error + tensor5" where
  "weight_by_distance hh ww height width head_attn_pixel pixel_distance =
     (case (bdim hh height, bdim ww width) of
        (Some H, Some W) \<Rightarrow>
          Inr (map (\<lambda>x. map (\<lambda>x1. map (\<lambda>y1. map (\<lambda>x2. map (\<lambda>y2.
                 x ! bidx hh x1 ! bidx ww y1 ! bidx hh x2 ! bidx ww y2
                 * pixel_distance ! bidx height x1 ! bidx width y1
                     ! bidx height x2 ! bidx width y2)
               [0..<W]) [0..<H]) [0..<W]) [0..<H]) head_attn_pixel)
      | _ \<Rightarrow> Inl RuntimeError)"

text \<open>\<open>torch.sum(t, dim=(-1, -2))\<close> of line 195.\<close>

definition sum_last2 :: "tensor5 \<Rightarrow> tensor3" where
  "sum_last2 t = map (map (map (\<lambda>m. sum_list (map sum_list m)))) t"

text \<open>
  \<open>torch.mean\<close> of line 195, over all entries. The mean of no entry is NaN in torch;
  \<open>None\<close> stands for it.
\<close>

definition torch_mean :: "tensor3 \<Rightarrow> real option" where
  "torch_mean t =
     (let xs = concat (concat t)
      in if xs = [] then None else Some (sum_list xs / real (length xs)))"

text \<open>The body of the loops of lines 186-195, for one layer and one head.\<close>

definition head_distance ::
  "nat \<Rightarrow> nat \<Rightarrow> nat \<Rightarrow> nat \<Rightarrow> nat \<Rightarrow> nat \<Rightarrow> tensor4 \<Rightarrow> tensor4 \<Rightarrow> nat
   \<Rightarrow> error + real option" where
  "head_distance nh nw ph pw height width pixel_distance attn j =
     (case head_patch_attn attn j of
        Inl e \<Rightarrow> Inl e
      | Inr a \<Rightarrow>
          (case einops_repeat_pairs nh nw ph pw a of
             Inl e \<Rightarrow> Inl e
           | Inr head_attn_pixel \<Rightarrow>
               (case weight_by_distance (nh * ph) (nw * pw) height width
                       head_attn_pixel pixel_distance of
                  Inl e \<Rightarrow> Inl e
                | Inr weighted_distance \<Rightarrow> Inr (torch_mean (sum_last2 weighted_distance)))))"

text \<open>
  A loop that stops at the first exception: \<open>traverse f xs\<close> runs \<open>f\<close> on the elements of
  \<open>xs\<close> in order and collects the results.
\<close>

fun traverse :: "('a \<Rightarrow> error + 'b) \<Rightarrow> 'a list \<Rightarrow> error + 'b list" where
  "traverse f [] = Inr []"
| "traverse f (x # xs) =
     (case f x of
        Inl e \<Rightarrow> Inl e
      | Inr y \<Rightarrow> (case traverse f xs of Inl e \<Rightarrow> Inl e | Inr ys \<Rightarrow> Inr (y # ys)))"

text \<open>
  Lines 166-197, on the batches seen and the cached tensors retrieved. Line 166 reads the
  shape of \<open>image\<close>, the loop variable of line 151: the last batch, and an unbound local
  when there was none. Line 168 is Python's floor division. Line 170 reads
  \<open>attn_maps[0]\<close>.
\<close>

definition mean_attention_distance ::
  "nat \<Rightarrow> nat \<Rightarrow> tensor4 list \<Rightarrow> tensor4 list \<Rightarrow> error + real option list list" where
  "mean_attention_distance ph pw images attn_maps =
     (case rev images of
        [] \<Rightarrow> Inl UnboundLocalError
      | img # _ \<Rightarrow>
          (case shape4 img of (_, _, height, width) \<Rightarrow>
             if ph = 0 \<or> pw = 0 then Inl ZeroDivisionError
             else
               let nh = height div ph; nw = width div pw
               in (case attn_maps of
                     [] \<Rightarrow> Inl IndexError
                   | a0 # _ \<Rightarrow>
                       let num_layer = length attn_maps;
                           num_head = extent1 a0;
                           pixel_distance = pixel_dist_matrix height width
                       in traverse (\<lambda>i. traverse (\<lambda>j.
                              head_distance nh nw ph pw height width pixel_distance
                                (attn_maps ! i) j) [0..<num_head]) [0..<num_layer])))"

text \<open>
  \<open>get_attention_distance\<close>: the matrix (layer, head) of mean distances or the exception
  raised, together with the model as the call leaves it.
\<close>

definition get_attention_distance ::
  "ViTClassifier \<Rightarrow> (tensor4 \<times> 'l) list
   \<Rightarrow> (error + real option list list) \<times> ViTClassifier" where
  "get_attention_distance model dataloader =
     (let model' = run_encoder (enable_all model) dataloader
      in case retrieve_cached id (attention_modules model') of
           (Inl e, ms) \<Rightarrow> (Inl e, model'\<lparr>attention_modules := ms\<rparr>)
         | (Inr attn_maps, ms) \<Rightarrow>
             (mean_attention_distance (patch_height model) (patch_width model)
                (map fst dataloader) attn_maps,
              model'\<lparr>attention_modules := ms\<rparr>))"

section \<open>Shapes and closed forms used by the statements\<close>

text \<open>
  \<open>has_shape3 b n m t\<close>: the nested list \<open>t\<close> is a rectangular array of shape (b, n, m);
  likewise for the other ranks.
\<close>

definition has_shape2 :: "nat \<Rightarrow> nat \<Rightarrow> 'a list list \<Rightarrow> bool" where
  "has_shape2 n m t \<longleftrightarrow> length t = n \<and> (\<forall>r\<in>set t. length r = m)"

definition has_shape3 :: "nat \<Rightarrow> nat \<Rightarrow> nat \<Rightarrow> 'a list list list \<Rightarrow> bool" where
  "has_shape3 b n m t \<longleftrightarrow> length t = b \<and> (\<forall>M\<in>set t. length M = n \<and> (\<forall>r\<in>set M. length r = m))"

definition has_shape4 :: "nat \<Rightarrow> nat \<Rightarrow> nat \<Rightarrow> nat \<Rightarrow> 'a list list list list \<Rightarrow> bool" where
  "has_shape4 b c n m t \<longleftrightarrow> length t = b \<and> (\<forall>x\<in>set t. has_shape3 c n m x)"

definition has_shape5 ::
  "nat \<Rightarrow> nat \<Rightarrow> nat \<Rightarrow> nat \<Rightarrow> nat \<Rightarrow> 'a list list list list list \<Rightarrow> bool" where
  "has_shape5 b h w h' w' t \<longleftrightarrow> length t = b \<and> (\<forall>x\<in>set t. has_shape4 h w h' w' x)"

text \<open>Every row of every matrix of the batch sums to 1.\<close>

definition rows_sum_to_one :: "tensor3 \<Rightarrow> bool" where
  "rows_sum_to_one t \<longleftrightarrow> (\<forall>M\<in>set t. \<forall>r\<in>set M. sum_list r = 1)"

text \<open>
  The residual correction and the batched product on arrays of the right shape, without
  the shape checks and the broadcasting; the lemmas below show that the functions of the
  source compute them on well-shaped inputs.
\<close>

definition resid :: "nat \<Rightarrow> tensor3 \<Rightarrow> tensor3" where
  "resid n x =
     map (\<lambda>M. map (\<lambda>i. map (\<lambda>k. 1/2 * (M ! i ! k) + 1/2 * (if i = k then 1 else 0))
       [0..<n]) [0..<n]) x"

definition bmm :: "nat \<Rightarrow> tensor3 \<Rightarrow> tensor3 \<Rightarrow> tensor3" where
  "bmm n r a =
     map (\<lambda>s. map (\<lambda>i. map (\<lambda>k. \<Sum>j<n. r ! s ! i ! j * a ! s ! j ! k)
       [0..<n]) [0..<n]) [0..<length r]"

definition rollout_of :: "nat \<Rightarrow> tensor3 \<Rightarrow> tensor3 list \<Rightarrow> tensor3" where
  "rollout_of n r xs = foldl (\<lambda>r x. bmm n r (resid n x)) r xs"

text \<open>
  The distance-weighted pixel attention of one sample \<open>x\<close> (head, token, token) for head
  \<open>j\<close>, on a grid of \<open>nh * nw\<close> patches of \<open>ph * pw\<close> pixels: what lines 189-194 compute
  when all shapes fit.
\<close>

definition head_weighted :: "nat \<Rightarrow> nat \<Rightarrow> nat \<Rightarrow> nat \<Rightarrow> nat \<Rightarrow> tensor3 \<Rightarrow> tensor4" where
  "head_weighted nh nw ph pw j x =
     map (\<lambda>x1. map (\<lambda>y1. map (\<lambda>x2. map (\<lambda>y2.
         x ! j ! Suc ((x1 div ph) * nw + y1 div pw) ! Suc ((x2 div ph) * nw + y2 div pw)
         * sqrt (real_of_int ((int x1 - int x2)\<^sup>2 + (int y1 - int y2)\<^sup>2)))
       [0..<nw * pw]) [0..<nh * ph]) [0..<nw * pw]) [0..<nh * ph]"

text \<open>
  A well-formed analysis run on a grid of \<open>nh * nw\<close> patches with \<open>heads\<close> heads per layer:
  the model has an attention module, every cache is empty on entry (section 4.5 of the
  specification), the data loader yields a batch, the patch extents are positive, every
  batch is a non-empty array (sample, channel, height, width) with height
  \<open>nh * patch_height\<close> and width \<open>nw * patch_width\<close>, and every attention module answers a
  batch with an array (sample, heads, token, token) over \<open>nh * nw + 1\<close> tokens: the class
  token and the patches.
\<close>

definition well_formed_run ::
  "ViTClassifier \<Rightarrow> (tensor4 \<times> 'l) list \<Rightarrow> nat \<Rightarrow> nat \<Rightarrow> nat \<Rightarrow> bool" where
  "well_formed_run model dataloader nh nw heads \<longleftrightarrow>
     attention_modules model \<noteq> []
     \<and> list_all (\<lambda>m. cache_attn_map m = []) (attention_modules model)
     \<and> dataloader \<noteq> []
     \<and> 0 < patch_height model \<and> 0 < patch_width model \<and> 0 < nh \<and> 0 < nw \<and> 0 < heads
     \<and> list_all (\<lambda>(img, y).
          img \<noteq> [] \<and> 0 < extent1 img
          \<and> has_shape4 (length img) (extent1 img)
                (nh * patch_height model) (nw * patch_width model) img
          \<and> list_all (\<lambda>l. has_shape4 (length img) heads (Suc (nh * nw)) (Suc (nh * nw))
                              (attention model l img))
                [0..<length (attention_modules model)]) dataloader"

text \<open>
  The attention tensors that the run caches: one per attention module and batch.
  \<open>cached_all P model dataloader\<close> says that each of them satisfies \<open>P\<close>.
\<close>

definition cached_all ::
  "(tensor4 \<Rightarrow> bool) \<Rightarrow> ViTClassifier \<Rightarrow> (tensor4 \<times> 'l) list \<Rightarrow> bool" where
  "cached_all P model dataloader \<longleftrightarrow>
     list_all (\<lambda>(img, y). list_all (\<lambda>l. P (attention model l img))
                 [0..<length (attention_modules model)]) dataloader"

text \<open>Every entry of the attention tensor is nonnegative.\<close>

definition nonnegative4 :: "tensor4 \<Rightarrow> bool" where
  "nonnegative4 t \<longleftrightarrow> (\<forall>x\<in>set t. \<forall>h\<in>set x. \<forall>r\<in>set h. \<forall>v\<in>set r. 0 \<le> v)"

text \<open>
  For every sample and head, the attention matrix without the row and the column of the
  class token is the identity matrix on \<open>p\<close> patch tokens.
\<close>

definition patch_attention_is_identity :: "nat \<Rightarrow> tensor4 \<Rightarrow> bool" where
  "patch_attention_is_identity p t \<longleftrightarrow>
     (\<forall>x\<in>set t. \<forall>h\<in>set x. map (drop 1) (drop 1 h) = eye p)"

section \<open>Inputs of the examples\<close>

text \<open>
  Two models with one attention module and one head, and a data loader with one batch of
  one image with one channel, one row and two columns. The first model has patches of one
  pixel, so the image has two patches and three tokens; every token attends to itself. The
  second model has one patch of two pixels, so two tokens; again every token attends to
  itself.
\<close>

abbreviation unit_patch_model :: ViTClassifier where
  "unit_patch_model \<equiv>
     \<lparr>attention_modules = [\<lparr>cache_enabled = False, cache_attn_map = []\<rparr>],
      patch_height = 1, patch_width = 1,
      attention = (\<lambda>l img. map (\<lambda>_. [[[1, 0, 0], [0, 1, 0], [0, 0, 1]]]) img)\<rparr>"

abbreviation wide_patch_model :: ViTClassifier where
  "wide_patch_model \<equiv>
     \<lparr>attention_modules = [\<lparr>cache_enabled = False, cache_attn_map = []\<rparr>],
      patch_height = 1, patch_width = 2,
      attention = (\<lambda>l img. map (\<lambda>_. [[[1, 0], [0, 1]]]) img)\<rparr>"

abbreviation two_pixel_batch :: "(tensor4 \<times> unit) list" where
  "two_pixel_batch \<equiv> [([[[[5, 6]]]], ())]"

section \<open>Rollout: shapes, totality and the product form\<close>

lemma upt_2: "[0..<2] = [0, 1]"
  by (simp add: upt_rec)

lemma shape3_wf: "has_shape3 b n m t \<Longrightarrow> 0 < b \<Longrightarrow> 0 < n \<Longrightarrow> shape3 t = (b, n, m)"
  by (cases t; cases "hd t") (auto simp: has_shape3_def shape3_def extent1_def)

lemma shape3_wf0: "has_shape3 b 0 m t \<Longrightarrow> shape3 t = (b, 0, 0)"
  by (cases t) (auto simp: has_shape3_def shape3_def extent1_def)

lemma eye_nth: "i < n \<Longrightarrow> k < n \<Longrightarrow> eye n ! i ! k = (if i = k then 1 else 0)"
  by (simp add: eye_def)

lemma residual_wf:
  assumes "has_shape3 b n n x"
  shows "residual (if b = 0 then 0 else n) x = Inr (resid n x)"
proof (cases "b = 0 \<or> n = 0")
  case True
  then show ?thesis
  proof
    assume "b = 0"
    with assms have "x = []" by (simp add: has_shape3_def)
    then show ?thesis using \<open>b = 0\<close>
      by (simp add: residual_def shape3_def extent1_def bdim_def resid_def)
  next
    assume n: "n = 0"
    with assms have "shape3 x = (b, 0, 0)" by (simp add: shape3_wf0)
    moreover have "length x = b" using assms by (simp add: has_shape3_def)
    ultimately show ?thesis using n
      by (auto simp: residual_def bdim_def resid_def intro: nth_equalityI)
  qed
next
  case False
  then have b: "0 < b" and n: "0 < n" by auto
  have sh: "shape3 x = (b, n, n)" using assms b n by (rule shape3_wf)
  have len: "length x = b" using assms by (simp add: has_shape3_def)
  have "map (\<lambda>s. map (\<lambda>i. map (\<lambda>k. 0.5 * (x ! s ! bidx n i ! bidx n k)
                    + 0.5 * (eye n ! bidx n i ! bidx n k)) [0..<n]) [0..<n]) [0..<b]
      = map (\<lambda>s. map (\<lambda>i. map (\<lambda>k. 1/2 * (x ! s ! i ! k) + 1/2 * (if i = k then 1 else 0)) [0..<n]) [0..<n]) [0..<b]"
    by (auto simp: bidx_def eye_nth)
  also have "\<dots> = resid n x"
    unfolding resid_def using len by (auto intro: nth_equalityI)
  finally show ?thesis using b sh by (simp add: residual_def bdim_def)
qed

lemma has_shape3_resid: "has_shape3 b n n x \<Longrightarrow> has_shape3 b n n (resid n x)"
  by (auto simp: has_shape3_def resid_def)

lemma einsum_wf:
  assumes "has_shape3 b n n r" "has_shape3 b n n a"
  shows "einsum_bij_bjk r a = Inr (bmm n r a)"
proof (cases "b = 0 \<or> n = 0")
  case True
  then show ?thesis
  proof
    assume "b = 0"
    with assms have "r = []" "a = []" by (simp_all add: has_shape3_def)
    then show ?thesis
      by (simp add: einsum_bij_bjk_def shape3_def extent1_def bdim_def bmm_def)
  next
    assume n: "n = 0"
    with assms have "shape3 r = (b, 0, 0)" "shape3 a = (b, 0, 0)" by (simp_all add: shape3_wf0)
    moreover have "length r = b" using assms by (simp add: has_shape3_def)
    ultimately show ?thesis using n
      by (auto simp: einsum_bij_bjk_def bdim_def bmm_def)
  qed
next
  case False
  then have b: "0 < b" and n: "0 < n" by auto
  have sh: "shape3 r = (b, n, n)" "shape3 a = (b, n, n)" using assms b n by (simp_all add: shape3_wf)
  have len: "length r = b" using assms by (simp add: has_shape3_def)
  have "map (\<lambda>s. map (\<lambda>i. map (\<lambda>k.
                    sum_list (map (\<lambda>j. r ! bidx b s ! i ! bidx n j
                                       * a ! bidx b s ! bidx n j ! k) [0..<n]))
                  [0..<n]) [0..<n]) [0..<b] = bmm n r a"
  proof -
    have "sum_list (map (\<lambda>j. r ! bidx b s ! i ! bidx n j * a ! bidx b s ! bidx n j ! k) [0..<n])
          = (\<Sum>j<n. r ! s ! i ! j * a ! s ! j ! k)" if "s < b" for s i k
      unfolding interv_sum_list_conv_sum_set_nat using that
      by (intro sum.cong) (auto simp: bidx_def)
    then show ?thesis unfolding bmm_def len by simp
  qed
  then show ?thesis using sh by (simp add: einsum_bij_bjk_def bdim_def)
qed

lemma has_shape3_bmm: "has_shape3 b n n r \<Longrightarrow> has_shape3 b n n (bmm n r a)"
  by (auto simp: has_shape3_def bmm_def)


lemma rollout_loop_wf:
  "has_shape3 b n n r \<Longrightarrow> \<forall>x\<in>set xs. has_shape3 b n n x \<Longrightarrow>
   rollout_loop (if b = 0 then 0 else n) r xs = Inr (rollout_of n r xs)"
proof (induction xs arbitrary: r)
  case Nil
  then show ?case by (simp add: rollout_of_def)
next
  case (Cons x xs)
  have x: "has_shape3 b n n x" using Cons.prems by simp
  have r': "has_shape3 b n n (bmm n r (resid n x))" using Cons.prems(1) by (rule has_shape3_bmm)
  have "rollout_loop (if b = 0 then 0 else n) (bmm n r (resid n x)) xs
        = Inr (rollout_of n (bmm n r (resid n x)) xs)"
    using Cons.IH [OF r'] Cons.prems(2) by simp
  then show ?case
    using residual_wf [OF x] einsum_wf [OF Cons.prems(1) has_shape3_resid [OF x]]
    by (simp add: rollout_of_def)
qed

lemma has_shape3_rollout_of:
  "has_shape3 b n n r \<Longrightarrow> has_shape3 b n n (rollout_of n r xs)"
  unfolding rollout_of_def
  by (induction xs arbitrary: r) (simp_all add: has_shape3_bmm)

lemma has_shape3_replicate_eye: "has_shape3 b n n (replicate b (eye n))"
  by (auto simp: has_shape3_def eye_def)

lemma attn_rollout_wf:
  assumes "attn_matrices \<noteq> []" and "\<forall>A\<in>set attn_matrices. has_shape3 b n n A"
  shows "attn_rollout attn_matrices = Inr (rollout_of n (replicate b (eye n)) attn_matrices)"
proof -
  obtain a0 as where as: "attn_matrices = a0 # as" using assms(1) by (cases attn_matrices) auto
  have a0: "has_shape3 b n n a0" using assms(2) as by simp
  have "\<exists>m. shape3 a0 = (b, if b = 0 then 0 else n, m)"
  proof (cases "b = 0")
    case True
    with a0 have "a0 = []" by (simp add: has_shape3_def)
    then show ?thesis using True by (simp add: shape3_def extent1_def)
  next
    case False
    show ?thesis
    proof (cases "n = 0")
      case True
      then show ?thesis using a0 False shape3_wf0 [of b n a0] by simp
    next
      case n: False
      then show ?thesis using a0 False shape3_wf [of b n n a0] by simp
    qed
  qed
  then obtain m where sh: "shape3 a0 = (b, if b = 0 then 0 else n, m)" ..
  define n' where "n' = (if b = 0 then 0 else n)"
  have init: "replicate b (eye n') = replicate b (eye n)"
    by (simp add: n'_def)
  have "attn_rollout attn_matrices = rollout_loop n' (replicate b (eye n')) attn_matrices"
    using sh unfolding n'_def [symmetric] by (simp add: attn_rollout_def as del: rollout_loop.simps)
  also have "\<dots> = Inr (rollout_of n (replicate b (eye n)) attn_matrices)"
    unfolding init unfolding n'_def by (rule rollout_loop_wf [OF has_shape3_replicate_eye assms(2)])
  finally show ?thesis .
qed

lemma sum_delta_lt: "i < (n::nat) \<Longrightarrow> (\<Sum>k<n. if i = k then 1 else 0) = (1::real)"
  by (simp add: sum.delta')

lemma sum_list_upt: "sum_list (map f [0..<n]) = (\<Sum>k<n. f k)"
  by (simp add: interv_sum_list_conv_sum_set_nat atLeast0LessThan)

lemma rows_resid:
  assumes "has_shape3 b n n x" "rows_sum_to_one x"
  shows "rows_sum_to_one (resid n x)"
proof -
  have "sum_list (map (\<lambda>k. 1/2 * (M ! i ! k) + 1/2 * (if i = k then 1 else 0)) [0..<n]) = 1"
    if M: "M \<in> set x" and i: "i < n" for M i
  proof -
    have len: "length M = n" "length (M ! i) = n" using assms(1) M i by (auto simp: has_shape3_def)
    have "sum_list (M ! i) = 1" using assms(2) M i len by (auto simp: rows_sum_to_one_def)
    then have s: "(\<Sum>k<n. M ! i ! k) = 1"
      using len by (simp add: sum_list_sum_nth atLeast0LessThan)
    have "(\<Sum>k<n. 1/2 * (M ! i ! k) + 1/2 * (if i = k then 1 else 0))
          = (\<Sum>k<n. 1/2 * (M ! i ! k)) + (\<Sum>k<n. 1/2 * (if i = k then 1 else 0))"
      by (rule sum.distrib)
    also have "\<dots> = 1/2 * (\<Sum>k<n. M ! i ! k) + 1/2 * (\<Sum>k<n. if i = k then 1 else 0)"
      unfolding sum_distrib_left ..
    also have "\<dots> = 1" unfolding s sum_delta_lt [OF i] by simp
    finally show ?thesis unfolding sum_list_upt .
  qed
  then show ?thesis by (auto simp: rows_sum_to_one_def resid_def)
qed

lemma rows_sum_nth:
  "has_shape3 b n n a \<Longrightarrow> rows_sum_to_one a \<Longrightarrow> s < b \<Longrightarrow> j < n \<Longrightarrow> (\<Sum>k<n. a ! s ! j ! k) = 1"
proof -
  assume a: "has_shape3 b n n a" "rows_sum_to_one a" "s < b" "j < n"
  then have M: "a ! s \<in> set a" "length (a ! s) = n" by (auto simp: has_shape3_def)
  then have r: "a ! s ! j \<in> set (a ! s)" using a by simp
  then have "length (a ! s ! j) = n" "sum_list (a ! s ! j) = 1"
    using a(1,2) M(1) unfolding has_shape3_def rows_sum_to_one_def by blast+
  then show ?thesis
    by (simp add: sum_list_sum_nth atLeast0LessThan)
qed

lemma rows_bmm:
  assumes "has_shape3 b n n r" "rows_sum_to_one r" "has_shape3 b n n a" "rows_sum_to_one a"
  shows "rows_sum_to_one (bmm n r a)"
proof -
  have "sum_list (map (\<lambda>k. \<Sum>j<n. r ! s ! i ! j * a ! s ! j ! k) [0..<n]) = 1"
    if s: "s < b" and i: "i < n" for s i
  proof -
    have "(\<Sum>k<n. \<Sum>j<n. r ! s ! i ! j * a ! s ! j ! k)
          = (\<Sum>j<n. \<Sum>k<n. r ! s ! i ! j * a ! s ! j ! k)"
      by (rule sum.swap)
    also have "\<dots> = (\<Sum>j<n. r ! s ! i ! j * (\<Sum>k<n. a ! s ! j ! k))"
      by (simp add: sum_distrib_left)
    also have "\<dots> = (\<Sum>j<n. r ! s ! i ! j)"
      by (intro sum.cong) (simp_all add: rows_sum_nth [OF assms(3,4) s])
    also have "\<dots> = 1" by (rule rows_sum_nth [OF assms(1,2) s i])
    finally show ?thesis by (simp add: sum_list_upt)
  qed
  moreover have "length r = b" using assms(1) by (simp add: has_shape3_def)
  ultimately show ?thesis by (auto simp: rows_sum_to_one_def bmm_def)
qed

lemma rows_replicate_eye: "rows_sum_to_one (replicate b (eye n))"
proof -
  have "sum_list (map (\<lambda>k. if i = k then 1 else 0) [0..<n]) = (1::real)" if "i < n" for i
    using that by (simp add: sum_list_upt sum_delta_lt)
  then show ?thesis by (auto simp: rows_sum_to_one_def eye_def)
qed

lemma rows_rollout_of:
  "has_shape3 b n n r \<Longrightarrow> rows_sum_to_one r \<Longrightarrow> \<forall>x\<in>set xs. has_shape3 b n n x \<and> rows_sum_to_one x \<Longrightarrow>
   rows_sum_to_one (rollout_of n r xs)"
  unfolding rollout_of_def
proof (induction xs arbitrary: r)
  case Nil
  then show ?case by simp
next
  case (Cons x xs)
  have x: "has_shape3 b n n x" "rows_sum_to_one x" using Cons.prems(3) by simp_all
  have "rows_sum_to_one (bmm n r (resid n x))"
    using Cons.prems(1,2) has_shape3_resid [OF x(1)] rows_resid [OF x] by (rule rows_bmm)
  then show ?case using Cons.IH [OF has_shape3_bmm [OF Cons.prems(1)]] Cons.prems(3) by simp
qed

text \<open>
  Claim C1. For a non-empty list of attention arrays of one shape (b, n, n) whose rows all
  sum to 1, \<open>attn_rollout\<close> returns an array of shape (b, n, n) whose rows all sum to 1.
\<close>

theorem attn_rollout_row_stochastic:
  assumes "attn_matrices \<noteq> []"
    and "\<forall>A\<in>set attn_matrices. has_shape3 b n n A \<and> rows_sum_to_one A"
  shows "\<exists>R. attn_rollout attn_matrices = Inr R \<and> has_shape3 b n n R \<and> rows_sum_to_one R"
proof -
  have wf: "\<forall>A\<in>set attn_matrices. has_shape3 b n n A" using assms(2) by simp
  show ?thesis
    using attn_rollout_wf [OF assms(1) wf] has_shape3_rollout_of [OF has_shape3_replicate_eye]
      rows_rollout_of [OF has_shape3_replicate_eye rows_replicate_eye assms(2)]
    by simp
qed


lemma has_shape3_nth:
  "has_shape3 b n m x \<Longrightarrow> s < b \<Longrightarrow> length (x ! s) = n"
  "has_shape3 b n m x \<Longrightarrow> s < b \<Longrightarrow> i < n \<Longrightarrow> length (x ! s ! i) = m"
proof -
  assume a: "has_shape3 b n m x" "s < b"
  then have M: "x ! s \<in> set x" by (simp add: has_shape3_def)
  then show n: "length (x ! s) = n" using a(1) by (simp add: has_shape3_def)
  assume "i < n"
  then have "x ! s ! i \<in> set (x ! s)" using n by simp
  then show "length (x ! s ! i) = m" using a(1) M unfolding has_shape3_def by blast
qed

lemma has_shape3_eqI:
  assumes "has_shape3 b n m x" "has_shape3 b n m y"
    and "\<And>s i k. s < b \<Longrightarrow> i < n \<Longrightarrow> k < m \<Longrightarrow> x ! s ! i ! k = y ! s ! i ! k"
  shows "x = y"
proof (rule nth_equalityI)
  show "length x = length y" using assms(1,2) by (simp add: has_shape3_def)
next
  fix s assume "s < length x"
  then have s: "s < b" using assms(1) by (simp add: has_shape3_def)
  show "x ! s = y ! s"
  proof (rule nth_equalityI)
    show "length (x ! s) = length (y ! s)" using assms(1,2) s by (simp add: has_shape3_nth)
  next
    fix i assume "i < length (x ! s)"
    then have i: "i < n" using assms(1) s by (simp add: has_shape3_nth)
    show "x ! s ! i = y ! s ! i"
      using assms s i by (intro nth_equalityI) (simp_all add: has_shape3_nth)
  qed
qed

lemma bmm_nth:
  "s < length r \<Longrightarrow> i < n \<Longrightarrow> k < n \<Longrightarrow>
   bmm n r a ! s ! i ! k = (\<Sum>j<n. r ! s ! i ! j * a ! s ! j ! k)"
  by (simp add: bmm_def)

lemma resid_nth:
  "s < length x \<Longrightarrow> i < n \<Longrightarrow> k < n \<Longrightarrow>
   resid n x ! s ! i ! k = 1/2 * (x ! s ! i ! k) + 1/2 * (if i = k then 1 else 0)"
  by (simp add: resid_def)

lemma sum_delta_mult:
  "i < (n::nat) \<Longrightarrow> (\<Sum>j<n. (if i = j then 1 else 0) * f j) = (f i :: real)"
proof -
  assume i: "i < n"
  have "(\<Sum>j<n. (if i = j then 1 else 0) * f j) = (\<Sum>j<n. if i = j then f j else 0)"
    by (intro sum.cong) auto
  then show ?thesis using i by (simp add: sum.delta')
qed

lemma bmm_eye_left:
  assumes "has_shape3 b n n x"
  shows "bmm n (replicate b (eye n)) x = x"
proof (rule has_shape3_eqI [of b n n])
  show "has_shape3 b n n (bmm n (replicate b (eye n)) x)"
    using has_shape3_replicate_eye by (rule has_shape3_bmm)
  show "has_shape3 b n n x" by fact
next
  fix s i k assume s: "s < b" and i: "i < n" and k: "k < n"
  have "bmm n (replicate b (eye n)) x ! s ! i ! k
        = (\<Sum>j<n. (if i = j then 1 else 0) * x ! s ! j ! k)"
    using s i k by (simp add: bmm_nth eye_nth)
  also have "\<dots> = x ! s ! i ! k" using i by (rule sum_delta_mult)
  finally show "bmm n (replicate b (eye n)) x ! s ! i ! k = x ! s ! i ! k" .
qed

text \<open>
  Claim C3, as amended. The specification asks for an InvalidInputError on an empty
  sequence of layers. The source reads \<open>attn_matrices[0]\<close> first, so the call fails with
  Python's IndexError.
\<close>

theorem attn_rollout_empty_IndexError: "attn_rollout [] = Inl IndexError"
  by (simp add: attn_rollout_def)

text \<open>
  Claim C3 as stated fails: the error raised on the empty sequence is not an
  InvalidInputError.
\<close>

theorem attn_rollout_empty_not_InvalidInputError:
  "attn_rollout [] \<noteq> Inl InvalidInputError"
  by (simp add: attn_rollout_def)

text \<open>
  Claim C7. On the one-element list \<open>[A]\<close>, with \<open>A\<close> of shape (b, n, n),
  \<open>attn_rollout\<close> returns \<open>0.5 A + 0.5 I\<close>, entry by entry.
\<close>

theorem attn_rollout_single_layer:
  assumes "has_shape3 b n n A"
  shows "attn_rollout [A] =
         Inr (map (\<lambda>M. map (\<lambda>i. map (\<lambda>k.
                0.5 * (M ! i ! k) + 0.5 * (if i = k then 1 else 0)) [0..<n]) [0..<n]) A)"
proof -
  have "attn_rollout [A] = Inr (bmm n (replicate b (eye n)) (resid n A))"
    using attn_rollout_wf [of "[A]" b n] assms by (simp add: rollout_of_def)
  also have "bmm n (replicate b (eye n)) (resid n A) = resid n A"
    using assms by (intro bmm_eye_left has_shape3_resid)
  finally show ?thesis by (simp add: resid_def)
qed

text \<open>
  Claim C8. For \<open>A\<close>, \<open>B\<close>, \<open>C\<close> of one shape (b, n, n), the rollout of \<open>[A, B, C]\<close> is
  the rollout \<open>R\<close> of \<open>[A, B]\<close> multiplied on the right, sample by sample, by
  \<open>0.5 C + 0.5 I\<close>.
\<close>

theorem attn_rollout_third_layer:
  assumes "has_shape3 b n n A" "has_shape3 b n n B" "has_shape3 b n n C"
  shows "\<exists>R. attn_rollout [A, B] = Inr R \<and>
           attn_rollout [A, B, C] =
             Inr (map (\<lambda>s. map (\<lambda>i. map (\<lambda>k.
                    sum_list (map (\<lambda>j. R ! s ! i ! j
                       * (0.5 * (C ! s ! j ! k) + 0.5 * (if j = k then 1 else 0))) [0..<n]))
                  [0..<n]) [0..<n]) [0..<b])"
proof -
  define R where "R = rollout_of n (replicate b (eye n)) [A, B]"
  have R: "attn_rollout [A, B] = Inr R"
    using attn_rollout_wf [of "[A, B]" b n] assms by (simp add: R_def)
  have wfR: "has_shape3 b n n R" unfolding R_def using has_shape3_replicate_eye by (rule has_shape3_rollout_of)
  then have lenR: "length R = b" by (simp add: has_shape3_def)
  have lenC: "length C = b" using assms(3) by (simp add: has_shape3_def)
  have "attn_rollout [A, B, C] = Inr (bmm n R (resid n C))"
    using attn_rollout_wf [of "[A, B, C]" b n] assms by (simp add: R_def rollout_of_def)
  also have "bmm n R (resid n C) =
      map (\<lambda>s. map (\<lambda>i. map (\<lambda>k.
                    sum_list (map (\<lambda>j. R ! s ! i ! j
                       * (0.5 * (C ! s ! j ! k) + 0.5 * (if j = k then 1 else 0))) [0..<n]))
                  [0..<n]) [0..<n]) [0..<b]"
  proof -
    have "(\<Sum>j<n. R ! s ! i ! j * resid n C ! s ! j ! k)
          = sum_list (map (\<lambda>j. R ! s ! i ! j
               * (0.5 * (C ! s ! j ! k) + 0.5 * (if j = k then 1 else 0))) [0..<n])"
      if "s < b" "k < n" for s i k
      unfolding sum_list_upt using that lenC
      by (intro sum.cong) (simp_all add: resid_nth)
    then show ?thesis unfolding bmm_def lenR by simp
  qed
  finally show ?thesis using R by blast
qed

theorem attn_rollout_row_stochastic_witness:
  "[[[[1/2, 1/2], [0, 1]]], [[[1/4, 3/4], [1, 0]]]] \<noteq> ([] :: tensor3 list)
   \<and> has_shape3 1 2 2 ([[[1/2, 1/2], [0, 1]]] :: tensor3)
   \<and> rows_sum_to_one [[[1/2, 1/2], [0, 1]]]
   \<and> has_shape3 1 2 2 ([[[1/4, 3/4], [1, 0]]] :: tensor3)
   \<and> rows_sum_to_one [[[1/4, 3/4], [1, 0]]]
   \<and> (\<exists>R. attn_rollout [[[[1/2, 1/2], [0, 1]]], [[[1/4, 3/4], [1, 0]]]] = Inr R
          \<and> has_shape3 1 2 2 R \<and> rows_sum_to_one R)"
  using attn_rollout_row_stochastic [of "[[[[1/2, 1/2], [0, 1]]], [[[1/4, 3/4], [1, 0]]]]" 1 2]
  by (simp add: has_shape3_def rows_sum_to_one_def)

theorem attn_rollout_single_layer_witness:
  "has_shape3 1 2 2 ([[[1/2, 1/2], [0, 1]]] :: tensor3)
   \<and> attn_rollout [[[[1/2, 1/2], [0, 1]]]] = Inr [[[3/4, 1/4], [0, 1]]]"
  using attn_rollout_single_layer [of 1 2 "[[[1/2, 1/2], [0, 1]]]"]
  by (simp add: has_shape3_def upt_2)

theorem attn_rollout_third_layer_witness:
  "has_shape3 1 2 2 ([[[1/2, 1/2], [0, 1]]] :: tensor3)
   \<and> has_shape3 1 2 2 ([[[1/4, 3/4], [1, 0]]] :: tensor3)
   \<and> has_shape3 1 2 2 ([[[0, 1], [1, 0]]] :: tensor3)
   \<and> (\<exists>R. attn_rollout [[[[1/2, 1/2], [0, 1]]], [[[1/4, 3/4], [1, 0]]]] = Inr R \<and>
           attn_rollout [[[[1/2, 1/2], [0, 1]]], [[[1/4, 3/4], [1, 0]]], [[[0, 1], [1, 0]]]] =
             Inr (map (\<lambda>s. map (\<lambda>i. map (\<lambda>k.
                    sum_list (map (\<lambda>j. R ! s ! i ! j
                       * (0.5 * ([[[0, 1], [1, 0]]] ! s ! j ! k)
                          + 0.5 * (if j = k then 1 else 0))) [0..<2]))
                  [0..<2]) [0..<2]) [0..<1]))"
  using attn_rollout_third_layer [of 1 2 "[[[1/2, 1/2], [0, 1]]]" "[[[1/4, 3/4], [1, 0]]]"
      "[[[0, 1], [1, 0]]]"]
  by (simp add: has_shape3_def)

section \<open>The pixel distance matrix\<close>

lemma pixel_dist_nth:
  "x1 < h \<Longrightarrow> y1 < w \<Longrightarrow> x2 < h \<Longrightarrow> y2 < w \<Longrightarrow>
   pixel_dist_matrix h w ! x1 ! y1 ! x2 ! y2
     = sqrt (real_of_int ((int x1 - int x2)\<^sup>2 + (int y1 - int y2)\<^sup>2))"
  by (simp add: pixel_dist_matrix_def)

text \<open>
  Claim C9. The pixel distance matrix built for an image of \<open>h\<close> rows and \<open>w\<close> columns is
  symmetric, zero on the diagonal and nonnegative, at all pixel coordinates in range.
\<close>

theorem pixel_dist_matrix_metric:
  assumes "x1 < h" "y1 < w" "x2 < h" "y2 < w"
  shows "pixel_dist_matrix h w ! x1 ! y1 ! x2 ! y2 = pixel_dist_matrix h w ! x2 ! y2 ! x1 ! y1
       \<and> pixel_dist_matrix h w ! x1 ! y1 ! x1 ! y1 = 0
       \<and> 0 \<le> pixel_dist_matrix h w ! x1 ! y1 ! x2 ! y2"
proof -
  have "(int x1 - int x2)\<^sup>2 = (int x2 - int x1)\<^sup>2" "(int y1 - int y2)\<^sup>2 = (int y2 - int y1)\<^sup>2"
    by (simp_all add: power2_commute)
  then show ?thesis using assms by (simp add: pixel_dist_nth)
qed

theorem pixel_dist_matrix_metric_witness:
  "(0::nat) < 2 \<and> (1::nat) < 3 \<and> (1::nat) < 2 \<and> (2::nat) < 3
   \<and> pixel_dist_matrix 2 3 ! 0 ! 1 ! 1 ! 2 = pixel_dist_matrix 2 3 ! 1 ! 2 ! 0 ! 1
   \<and> pixel_dist_matrix 2 3 ! 0 ! 1 ! 0 ! 1 = 0
   \<and> 0 \<le> pixel_dist_matrix 2 3 ! 0 ! 1 ! 1 ! 2"
  using pixel_dist_matrix_metric [of 0 2 1 3 1 2] by simp


section \<open>Replication of patches to pixels\<close>

lemma patch_index_lt:
  assumes "x < nh * ph" "y < nw * pw"
  shows "(x div ph) * nw + y div pw < nh * (nw::nat)"
proof -
  have "0 < ph" "0 < pw" using assms by (auto intro: gr0I)
  have a: "x div ph < nh" using assms(1) by (simp add: less_mult_imp_div_less)
  have b: "y div pw < nw" using assms(2) by (simp add: less_mult_imp_div_less)
  have "(x div ph) * nw + y div pw < (x div ph) * nw + nw" using b by simp
  also have "\<dots> = Suc (x div ph) * nw" by simp
  also have "\<dots> \<le> nh * nw" using a by (intro mult_le_mono1) simp
  finally show ?thesis .
qed

text \<open>
  Claim C6. Both replications of patches to pixels, the one of the attention map (line 244)
  and the one of the pairwise attention (line 189), return an array of the pixel shape in
  which the pixel \<open>(r * ph + i, c * pw + j)\<close> of patch cell \<open>(r, c)\<close> carries the value of
  that cell; the input has at least one sample.
\<close>

theorem upsampling_exact:
  assumes "0 < b" and "has_shape2 b (nh * nw) x" and "has_shape3 b (nh * nw) (nh * nw) a"
  shows "(\<exists>out. einops_repeat_map nh nw ph pw x = Inr out
            \<and> has_shape3 b (nh * ph) (nw * pw) out
            \<and> (\<forall>s<b. \<forall>r<nh. \<forall>c<nw. \<forall>i<ph. \<forall>j<pw.
                  out ! s ! (r * ph + i) ! (c * pw + j) = x ! s ! (r * nw + c)))
       \<and> (\<exists>out. einops_repeat_pairs nh nw ph pw a = Inr out
            \<and> has_shape5 b (nh * ph) (nw * pw) (nh * ph) (nw * pw) out
            \<and> (\<forall>s<b. \<forall>r<nh. \<forall>c<nw. \<forall>i<ph. \<forall>j<pw. \<forall>r'<nh. \<forall>c'<nw. \<forall>i'<ph. \<forall>j'<pw.
                  out ! s ! (r * ph + i) ! (c * pw + j) ! (r' * ph + i') ! (c' * pw + j')
                    = a ! s ! (r * nw + c) ! (r' * nw + c')))"
proof (intro conjI)
  have lx: "length x = b" using assms(2) by (simp add: has_shape2_def)
  then have "extent1 x = nh * nw" using assms(1,2)
    by (cases x) (auto simp: has_shape2_def extent1_def)
  then have eq: "einops_repeat_map nh nw ph pw x
      = Inr (map (\<lambda>v. map (\<lambda>i. map (\<lambda>j. v ! ((i div ph) * nw + j div pw))
                  [0..<nw * pw]) [0..<nh * ph]) x)"
    by (simp add: einops_repeat_map_def)
  have in_range: "r * ph + i < nh * ph" if "r < nh" "i < ph" for r i nh ph :: nat
  proof -
    have "r * ph + i < Suc r * ph" using that by simp
    also have "\<dots> \<le> nh * ph" using that by (intro mult_le_mono1) simp
    finally show ?thesis .
  qed
  show "\<exists>out. einops_repeat_map nh nw ph pw x = Inr out
            \<and> has_shape3 b (nh * ph) (nw * pw) out
            \<and> (\<forall>s<b. \<forall>r<nh. \<forall>c<nw. \<forall>i<ph. \<forall>j<pw.
                  out ! s ! (r * ph + i) ! (c * pw + j) = x ! s ! (r * nw + c))"
    unfolding eq using lx by (auto simp: has_shape3_def in_range)
  have la: "length a = b" using assms(3) by (simp add: has_shape3_def)
  define p where "p = nh * nw"
  have "shape3 a = (b, p, p) \<or> (p = 0 \<and> shape3 a = (b, 0, 0))"
  proof (cases "p = 0")
    case True
    then show ?thesis using assms(3) shape3_wf0 [of b p a] unfolding p_def [symmetric] by simp
  next
    case False
    then show ?thesis using assms(1,3) shape3_wf [of b p p a] unfolding p_def [symmetric] by simp
  qed
  then have eq2: "einops_repeat_pairs nh nw ph pw a =
      Inr (map (\<lambda>x. map (\<lambda>x1. map (\<lambda>y1. map (\<lambda>x2. map (\<lambda>y2.
                    x ! ((x1 div ph) * nw + y1 div pw) ! ((x2 div ph) * nw + y2 div pw))
                  [0..<nw * pw]) [0..<nh * ph]) [0..<nw * pw]) [0..<nh * ph]) a)"
    unfolding p_def by (auto simp: einops_repeat_pairs_def)
  show "\<exists>out. einops_repeat_pairs nh nw ph pw a = Inr out
            \<and> has_shape5 b (nh * ph) (nw * pw) (nh * ph) (nw * pw) out
            \<and> (\<forall>s<b. \<forall>r<nh. \<forall>c<nw. \<forall>i<ph. \<forall>j<pw. \<forall>r'<nh. \<forall>c'<nw. \<forall>i'<ph. \<forall>j'<pw.
                  out ! s ! (r * ph + i) ! (c * pw + j) ! (r' * ph + i') ! (c' * pw + j')
                    = a ! s ! (r * nw + c) ! (r' * nw + c'))"
    unfolding eq2 using la by (auto simp: has_shape5_def has_shape4_def has_shape3_def in_range)
qed

theorem upsampling_exact_witness:
  "(0::nat) < 1
   \<and> has_shape2 1 (2 * 3) ([[1, 2, 3, 4, 5, 6]] :: tensor2)
   \<and> has_shape3 1 (2 * 3) (2 * 3) ([replicate 6 (replicate 6 0)] :: tensor3)
   \<and> (\<exists>out. einops_repeat_map 2 3 4 4 [[1, 2, 3, 4, 5, 6]] = Inr out
          \<and> has_shape3 1 8 12 out
          \<and> (\<forall>s<1. \<forall>r<2. \<forall>c<3. \<forall>i<4. \<forall>j<4.
                out ! s ! (r * 4 + i) ! (c * 4 + j) = [[1, 2, 3, 4, 5, 6]] ! s ! (r * 3 + c)))
   \<and> (\<exists>out. einops_repeat_pairs 2 3 4 4 [replicate 6 (replicate 6 0)] = Inr out
          \<and> has_shape5 1 8 12 8 12 out
          \<and> (\<forall>s<1. \<forall>r<2. \<forall>c<3. \<forall>i<4. \<forall>j<4. \<forall>r'<2. \<forall>c'<3. \<forall>i'<4. \<forall>j'<4.
                out ! s ! (r * 4 + i) ! (c * 4 + j) ! (r' * 4 + i') ! (c' * 4 + j')
                  = [replicate 6 (replicate 6 0)] ! s ! (r * 3 + c) ! (r' * 3 + c')))"
  using upsampling_exact [of 1 2 3 "[[1, 2, 3, 4, 5, 6]]" "[replicate 6 (replicate 6 0)]" 4 4]
  by (simp add: has_shape2_def has_shape3_def)

section \<open>The exceptions that can be raised\<close>

lemma shape4_wf:
  "has_shape4 b c n m t \<Longrightarrow> 0 < b \<Longrightarrow> 0 < c \<Longrightarrow> 0 < n \<Longrightarrow> shape4 t = (b, c, n, m)"
  by (cases t) (auto simp: has_shape4_def shape4_def shape3_wf)















section \<open>Recording and retrieval\<close>

lemma transformer_encoder_simps:
  "length (attention_modules (transformer_encoder model img)) = length (attention_modules model)"
  "attention (transformer_encoder model img) = attention model"
  "patch_height (transformer_encoder model img) = patch_height model"
  "patch_width (transformer_encoder model img) = patch_width model"
  "l < length (attention_modules model) \<Longrightarrow>
   attention_modules (transformer_encoder model img) ! l
     = record_attn (attention_modules model ! l) (attention model l img)"
  by (simp_all add: transformer_encoder_def nth_enumerate_eq)

lemma run_encoder_Cons:
  "run_encoder model ((img, y) # dl) = run_encoder (transformer_encoder model img) dl"
  by (simp add: run_encoder_def)

lemma run_encoder_enabled:
  assumes "\<forall>m\<in>set (attention_modules model). cache_enabled m"
  shows "length (attention_modules (run_encoder model dl)) = length (attention_modules model)
       \<and> attention (run_encoder model dl) = attention model
       \<and> (\<forall>l<length (attention_modules model).
            attention_modules (run_encoder model dl) ! l
              = (attention_modules model ! l)
                  \<lparr>cache_attn_map := cache_attn_map (attention_modules model ! l)
                     @ map (\<lambda>(img, _). attention model l img) dl\<rparr>)"
  using assms
proof (induction dl arbitrary: model)
  case Nil
  then show ?case by (simp add: run_encoder_def)
next
  case (Cons p dl)
  obtain img y where p: "p = (img, y)" by (cases p)
  let ?m = "transformer_encoder model img"
  have en: "\<forall>m\<in>set (attention_modules ?m). cache_enabled m"
  proof
    fix m assume "m \<in> set (attention_modules ?m)"
    then obtain l where l: "l < length (attention_modules ?m)" and m: "m = attention_modules ?m ! l"
      by (auto simp: in_set_conv_nth)
    then have "m = record_attn (attention_modules model ! l) (attention model l img)"
      by (simp add: transformer_encoder_simps)
    moreover have "cache_enabled (attention_modules model ! l)"
      using Cons.prems l by (simp add: transformer_encoder_simps)
    ultimately show "cache_enabled m" by (simp add: record_attn_def)
  qed
  have on: "cache_enabled (attention_modules model ! l)"
    if "l < length (attention_modules model)" for l
    using that Cons.prems by simp
  show ?case
    using Cons.IH [OF en] unfolding p run_encoder_Cons
    by (simp add: transformer_encoder_simps record_attn_def on)
qed

lemma enable_all_simps:
  "length (attention_modules (enable_all model)) = length (attention_modules model)"
  "attention (enable_all model) = attention model"
  "\<forall>m\<in>set (attention_modules (enable_all model)). cache_enabled m"
  "l < length (attention_modules model) \<Longrightarrow>
   cache_attn_map (attention_modules (enable_all model) ! l)
     = cache_attn_map (attention_modules model ! l)"
  by (auto simp: enable_all_def enable_cache_def)

lemma cached_after_run:
  assumes "\<forall>m\<in>set (attention_modules model). cache_attn_map m = []"
    and "l < length (attention_modules model)"
  shows "cache_attn_map (attention_modules (run_encoder (enable_all model) dataloader) ! l)
         = map (\<lambda>(img, _). attention model l img) dataloader"
proof -
  have "cache_attn_map (attention_modules model ! l) = []" using assms by simp
  then show ?thesis
    using run_encoder_enabled [OF enable_all_simps(3), of model dataloader] assms(2)
    by (simp add: enable_all_simps)
qed

lemma retrieve_cached_ok:
  assumes "\<forall>m\<in>set ms. torch_cat (cache_attn_map m) = Inr (concat (cache_attn_map m))"
  shows "retrieve_cached f ms
         = (Inr (map (\<lambda>m. f (concat (cache_attn_map m))) ms),
            map (\<lambda>m. clear_cache (disable_cache m)) ms)"
  using assms by (induction ms) simp_all

lemma shape4_tail:
  "has_shape4 b c n m t \<Longrightarrow> 0 < b \<Longrightarrow> 0 < c \<Longrightarrow> 0 < n \<Longrightarrow> snd (shape4 t) = (c, n, m)"
  by (simp add: shape4_wf)

lemma torch_cat_ok:
  assumes "ts \<noteq> []" "0 < c" "0 < n"
    and "\<forall>t\<in>set ts. t \<noteq> [] \<and> has_shape4 (length t) c n m t"
  shows "torch_cat ts = Inr (concat ts)"
proof -
  have "snd (shape4 t) = (c, n, m)" if "t \<in> set ts" for t
    using assms(2-4) that by (intro shape4_tail [of "length t"]) auto
  then have "list_all (\<lambda>u. snd (shape4 u) = snd (shape4 (hd ts))) ts"
    using assms(1) by (simp add: list_all_iff)
  then show ?thesis using assms(1) by (cases ts) (simp_all add: torch_cat_def)
qed

lemma has_shape4_concat:
  assumes "\<forall>t\<in>set ts. has_shape4 (length t) c n m t"
  shows "has_shape4 (length (concat ts)) c n m (concat ts)"
  using assms by (auto simp: has_shape4_def)

lemma retrieval_after_run:
  assumes empty: "\<forall>m\<in>set (attention_modules model). cache_attn_map m = []"
    and dl: "dataloader \<noteq> []" and pos: "0 < c" "0 < n"
    and sh: "\<forall>l<length (attention_modules model). \<forall>(img, y)\<in>set dataloader.
               attention model l img \<noteq> []
               \<and> has_shape4 (length (attention model l img)) c n k (attention model l img)"
  shows "fst (retrieve_cached f (attention_modules (run_encoder (enable_all model) dataloader)))
         = Inr (map (\<lambda>l. f (concat (map (\<lambda>(img, _). attention model l img) dataloader)))
                 [0..<length (attention_modules model)])"
proof -
  let ?ms = "attention_modules (run_encoder (enable_all model) dataloader)"
  have len: "length ?ms = length (attention_modules model)"
    using run_encoder_enabled [OF enable_all_simps(3), of model dataloader]
    by (simp add: enable_all_simps)
  have cache: "cache_attn_map (?ms ! l) = map (\<lambda>(img, _). attention model l img) dataloader"
    if "l < length (attention_modules model)" for l
    using empty that by (rule cached_after_run)
  have "torch_cat (cache_attn_map m) = Inr (concat (cache_attn_map m))" if "m \<in> set ?ms" for m
  proof -
    from that obtain l where "l < length ?ms" and m: "m = ?ms ! l"
      unfolding in_set_conv_nth by blast
    then have l: "l < length (attention_modules model)" using len by simp
    show ?thesis
      unfolding m cache [OF l]
      using dl pos sh l by (intro torch_cat_ok [of _ c n k]) auto
  qed
  then have "retrieve_cached f ?ms
         = (Inr (map (\<lambda>m. f (concat (cache_attn_map m))) ?ms),
            map (\<lambda>m. clear_cache (disable_cache m)) ?ms)"
    by (intro retrieve_cached_ok) simp
  moreover have "map (\<lambda>m. f (concat (cache_attn_map m))) ?ms
      = map (\<lambda>l. f (concat (map (\<lambda>(img, _). attention model l img) dataloader)))
                 [0..<length (attention_modules model)]"
    using len cache by (intro nth_equalityI) simp_all
  ultimately show ?thesis by simp
qed

text \<open>
  Claim C5, as amended. On an empty data loader \<open>get_attention_maps\<close> fails with torch's
  RuntimeError for every model, at the concatenation of the images on line 226, before any
  cache is read; \<open>get_attention_distance\<close> fails with torch's RuntimeError at the retrieval
  of the first cache, which is empty. After a run over a non-empty data loader, retrieval
  returns for each attention module the tensors it recorded, concatenated along the sample
  axis in the order of the batches (and post-processed by \<open>f\<close>: the identity on line 162,
  the mean over heads on line 233).
\<close>

theorem empty_dataset_and_retrieval:
  assumes "attention_modules model \<noteq> []"
    and "\<forall>m\<in>set (attention_modules model). cache_attn_map m = []"
    and "dataloader \<noteq> []" and "0 < c" "0 < n"
    and "cached_all (\<lambda>t. t \<noteq> [] \<and> has_shape4 (length t) c n k t) model dataloader"
  shows "fst (get_attention_maps model' ([] :: (tensor4 \<times> 'l) list)) = Inl RuntimeError
       \<and> fst (get_attention_distance model ([] :: (tensor4 \<times> 'l) list)) = Inl RuntimeError
       \<and> fst (retrieve_cached f
               (attention_modules (run_encoder (enable_all model) (dataloader :: (tensor4 \<times> 'l) list))))
           = Inr (map (\<lambda>l. f (concat (map (\<lambda>(img, _). attention model l img) dataloader)))
                   [0..<length (attention_modules model)])"
proof (intro conjI)
  show "fst (get_attention_maps model' ([] :: (tensor4 \<times> 'l) list)) = Inl RuntimeError"
    by (simp add: get_attention_maps_def torch_cat_def)
  obtain m ms where ms: "attention_modules model = m # ms"
    using assms(1) by (cases "attention_modules model") auto
  then have "cache_attn_map m = []" using assms(2) by simp
  then show "fst (get_attention_distance model ([] :: (tensor4 \<times> 'l) list)) = Inl RuntimeError"
    using ms
    by (simp add: get_attention_distance_def run_encoder_def enable_all_def enable_cache_def
        torch_cat_def)
  show "fst (retrieve_cached f
               (attention_modules (run_encoder (enable_all model) dataloader)))
           = Inr (map (\<lambda>l. f (concat (map (\<lambda>(img, _). attention model l img) dataloader)))
                   [0..<length (attention_modules model)])"
  proof -
    have "\<forall>l<length (attention_modules model). \<forall>(img, y)\<in>set dataloader.
               attention model l img \<noteq> []
               \<and> has_shape4 (length (attention model l img)) c n k (attention model l img)"
      using assms(6) unfolding cached_all_def list_all_iff by auto
    from retrieval_after_run [OF assms(2-5) this, of f] show ?thesis .
  qed
qed

theorem empty_dataset_and_retrieval_witness:
  "attention_modules unit_patch_model \<noteq> []
   \<and> two_pixel_batch \<noteq> []
   \<and> cached_all (\<lambda>t. t \<noteq> [] \<and> has_shape4 (length t) 1 3 3 t) unit_patch_model two_pixel_batch
   \<and> fst (get_attention_maps wide_patch_model ([] :: (tensor4 \<times> unit) list)) = Inl RuntimeError
   \<and> fst (get_attention_distance unit_patch_model ([] :: (tensor4 \<times> unit) list)) = Inl RuntimeError
   \<and> fst (retrieve_cached id
            (attention_modules (run_encoder (enable_all unit_patch_model) two_pixel_batch)))
       = Inr [[[[[1, 0, 0], [0, 1, 0], [0, 0, 1]]]]]"
proof -
  have h2: "\<forall>m\<in>set (attention_modules unit_patch_model). cache_attn_map m = []" by simp
  have h6: "cached_all (\<lambda>t. t \<noteq> [] \<and> has_shape4 (length t) 1 3 3 t)
              unit_patch_model two_pixel_batch"
    by (simp add: cached_all_def has_shape4_def has_shape3_def)
  show ?thesis
    using h6 empty_dataset_and_retrieval [where model = unit_patch_model
        and dataloader = two_pixel_batch and c = 1 and n = 3 and k = 3
        and model' = wide_patch_model and f = id, OF _ h2 _ _ _ h6]
    by simp
qed

text \<open>
  Claim C5 as stated fails: on the empty data loader neither entry point raises an
  EmptyCacheError.
\<close>

theorem empty_dataset_counterexample:
  "fst (get_attention_maps unit_patch_model ([] :: (tensor4 \<times> unit) list)) = Inl RuntimeError
   \<and> fst (get_attention_maps unit_patch_model ([] :: (tensor4 \<times> unit) list)) \<noteq> Inl EmptyCacheError
   \<and> fst (get_attention_distance unit_patch_model ([] :: (tensor4 \<times> unit) list)) = Inl RuntimeError
   \<and> fst (get_attention_distance unit_patch_model ([] :: (tensor4 \<times> unit) list)) \<noteq> Inl EmptyCacheError"
  by (simp add: get_attention_maps_def get_attention_distance_def run_encoder_def enable_all_def
      enable_cache_def torch_cat_def)

section \<open>The mean distance in closed form\<close>

lemma bidx_lt: "i < d \<Longrightarrow> bidx d i = i"
  by (auto simp: bidx_def)

lemma has_shape4_nth:
  assumes "has_shape4 b c n m t" "x \<in> set t"
  shows "length x = c"
    and "j < c \<Longrightarrow> length (x ! j) = n"
    and "j < c \<Longrightarrow> i < n \<Longrightarrow> length (x ! j ! i) = m"
proof -
  have x: "has_shape3 c n m x" using assms by (simp add: has_shape4_def)
  then show "length x = c" by (simp add: has_shape3_def)
  show "j < c \<Longrightarrow> length (x ! j) = n" using x by (rule has_shape3_nth(1))
  show "j < c \<Longrightarrow> i < n \<Longrightarrow> length (x ! j ! i) = m" using x by (rule has_shape3_nth(2))
qed

lemma head_patch_attn_wf:
  assumes "has_shape4 b c (Suc p) (Suc p) t" "0 < b" "j < c"
  shows "head_patch_attn t j = Inr (map (\<lambda>x. map (drop 1) (drop 1 (x ! j))) t)"
    and "has_shape3 b p p (map (\<lambda>x. map (drop 1) (drop 1 (x ! j))) t)"
proof -
  have "shape4 t = (b, c, Suc p, Suc p)" using assms by (intro shape4_wf) auto
  then show "head_patch_attn t j = Inr (map (\<lambda>x. map (drop 1) (drop 1 (x ! j))) t)"
    using assms(3) by (simp add: head_patch_attn_def)
  have "length (x ! j) = Suc p \<and> (\<forall>r\<in>set (x ! j). length r = Suc p)" if "x \<in> set t" for x
  proof -
    have x: "has_shape3 c (Suc p) (Suc p) x" using assms(1) that by (simp add: has_shape4_def)
    then have "x ! j \<in> set x" using assms(3) by (simp add: has_shape3_def)
    then show ?thesis using x unfolding has_shape3_def by blast
  qed
  then show "has_shape3 b p p (map (\<lambda>x. map (drop 1) (drop 1 (x ! j))) t)"
    using assms(1) by (auto simp: has_shape3_def has_shape4_def dest: in_set_dropD)
qed

lemma einops_repeat_pairs_wf:
  assumes "0 < b" and "has_shape3 b (nh * nw) (nh * nw) a"
  shows "einops_repeat_pairs nh nw ph pw a =
      Inr (map (\<lambda>x. map (\<lambda>x1. map (\<lambda>y1. map (\<lambda>x2. map (\<lambda>y2.
                    x ! ((x1 div ph) * nw + y1 div pw) ! ((x2 div ph) * nw + y2 div pw))
                  [0..<nw * pw]) [0..<nh * ph]) [0..<nw * pw]) [0..<nh * ph]) a)"
proof -
  define p where "p = nh * nw"
  have "shape3 a = (b, p, p) \<or> (p = 0 \<and> shape3 a = (b, 0, 0))"
  proof (cases "p = 0")
    case True
    then show ?thesis using assms(2) shape3_wf0 [of b p a] unfolding p_def [symmetric] by simp
  next
    case False
    then show ?thesis using assms shape3_wf [of b p p a] unfolding p_def [symmetric] by simp
  qed
  then show ?thesis unfolding p_def by (auto simp: einops_repeat_pairs_def)
qed

lemma weight_by_distance_same:
  "weight_by_distance hh ww hh ww t (pixel_dist_matrix hh ww) =
     Inr (map (\<lambda>x. map (\<lambda>x1. map (\<lambda>y1. map (\<lambda>x2. map (\<lambda>y2.
                 x ! x1 ! y1 ! x2 ! y2
                 * sqrt (real_of_int ((int x1 - int x2)\<^sup>2 + (int y1 - int y2)\<^sup>2)))
               [0..<ww]) [0..<hh]) [0..<ww]) [0..<hh]) t)"
  by (simp add: weight_by_distance_def bdim_def bidx_lt pixel_dist_matrix_def)

lemma head_distance_wf:
  assumes "has_shape4 b c (Suc (nh * nw)) (Suc (nh * nw)) t" "0 < b" "j < c"
  shows "head_distance nh nw ph pw (nh * ph) (nw * pw) (pixel_dist_matrix (nh * ph) (nw * pw)) t j
         = Inr (torch_mean (sum_last2 (map (head_weighted nh nw ph pw j) t)))"
proof -
  define A where "A = map (\<lambda>x. map (drop 1) (drop 1 (x ! j))) t"
  define B where "B = map (\<lambda>x. map (\<lambda>x1. map (\<lambda>y1. map (\<lambda>x2. map (\<lambda>y2.
                    x ! ((x1 div ph) * nw + y1 div pw) ! ((x2 div ph) * nw + y2 div pw))
                  [0..<nw * pw]) [0..<nh * ph]) [0..<nw * pw]) [0..<nh * ph]) A"
  define C where "C = map (\<lambda>x. map (\<lambda>x1. map (\<lambda>y1. map (\<lambda>x2. map (\<lambda>y2.
                 x ! x1 ! y1 ! x2 ! y2
                 * sqrt (real_of_int ((int x1 - int x2)\<^sup>2 + (int y1 - int y2)\<^sup>2)))
               [0..<nw * pw]) [0..<nh * ph]) [0..<nw * pw]) [0..<nh * ph]) B"
  have e1: "head_patch_attn t j = Inr A" and shA: "has_shape3 b (nh * nw) (nh * nw) A"
    unfolding A_def using assms by (rule head_patch_attn_wf)+
  have e2: "einops_repeat_pairs nh nw ph pw A = Inr B"
    unfolding B_def using assms(2) shA by (rule einops_repeat_pairs_wf)
  have e3: "weight_by_distance (nh * ph) (nw * pw) (nh * ph) (nw * pw) B
              (pixel_dist_matrix (nh * ph) (nw * pw)) = Inr C"
    unfolding C_def by (rule weight_by_distance_same)
  have key: "map (drop (Suc 0)) (drop (Suc 0) (x ! j))
               ! (x1 div ph * nw + y1 div pw) ! (x2 div ph * nw + y2 div pw)
             = x ! j ! Suc (x1 div ph * nw + y1 div pw) ! Suc (x2 div ph * nw + y2 div pw)"
    if x: "x \<in> set t" and r: "x1 < nh * ph" "y1 < nw * pw" "x2 < nh * ph" "y2 < nw * pw"
    for x x1 y1 x2 y2
  proof -
    have q: "(x1 div ph) * nw + y1 div pw < nh * nw" "(x2 div ph) * nw + y2 div pw < nh * nw"
      using r by (simp_all add: patch_index_lt)
    have l1: "length (x ! j) = Suc (nh * nw)" using assms(1,3) x by (simp add: has_shape4_nth)
    have l2: "length (x ! j ! Suc ((x1 div ph) * nw + y1 div pw)) = Suc (nh * nw)"
      using assms(1,3) x q by (simp add: has_shape4_nth)
    show ?thesis using q l1 l2 by simp
  qed
  have "C = map (head_weighted nh nw ph pw j) t"
    unfolding C_def B_def A_def by (simp add: head_weighted_def key)
  then show ?thesis
    unfolding head_distance_def by (simp add: e1 e2 e3)
qed

lemma traverse_ok: "\<forall>x\<in>set xs. f x = Inr (g x) \<Longrightarrow> traverse f xs = Inr (map g xs)"
  by (induction xs) simp_all

lemma sum_last2_weighted:
  "sum_last2 (map (head_weighted nh nw ph pw j) t)
   = map (\<lambda>x. map (\<lambda>x1. map (\<lambda>y1.
        sum_list (map (\<lambda>x2. sum_list (map (\<lambda>y2.
           x ! j ! Suc ((x1 div ph) * nw + y1 div pw) ! Suc ((x2 div ph) * nw + y2 div pw)
           * sqrt (real_of_int ((int x1 - int x2)\<^sup>2 + (int y1 - int y2)\<^sup>2)))
         [0..<nw * pw])) [0..<nh * ph]))
      [0..<nw * pw]) [0..<nh * ph]) t"
  by (simp add: sum_last2_def head_weighted_def comp_def)

lemma torch_mean_tabulated:
  fixes g :: "'a \<Rightarrow> nat \<Rightarrow> nat \<Rightarrow> real"
  assumes "t \<noteq> []" "0 < H" "0 < W"
  shows "(\<forall>x\<in>set t. \<forall>x1<H. \<forall>y1<W. 0 \<le> g x x1 y1) \<Longrightarrow>
         \<exists>v. torch_mean (map (\<lambda>x. map (\<lambda>x1. map (\<lambda>y1. g x x1 y1) [0..<W]) [0..<H]) t) = Some v
              \<and> 0 \<le> v"
    and "(\<forall>x\<in>set t. \<forall>x1<H. \<forall>y1<W. g x x1 y1 = 0) \<Longrightarrow>
         torch_mean (map (\<lambda>x. map (\<lambda>x1. map (\<lambda>y1. g x x1 y1) [0..<W]) [0..<H]) t) = Some 0"
proof -
  define xs where
    "xs = concat (concat (map (\<lambda>x. map (\<lambda>x1. map (\<lambda>y1. g x x1 y1) [0..<W]) [0..<H]) t))"
  obtain x0 where x0: "x0 \<in> set t" using assms(1) by (cases t) auto
  have "g x0 0 0 \<in> set xs" unfolding xs_def using x0 assms(2,3)
    by (auto intro!: bexI [of _ x0] bexI [of _ 0] image_eqI [of _ _ 0])
  then have ne: "xs \<noteq> []" by auto
  have mem: "\<exists>x\<in>set t. \<exists>x1<H. \<exists>y1<W. v = g x x1 y1" if "v \<in> set xs" for v
    using that unfolding xs_def by fastforce
  have tm: "torch_mean (map (\<lambda>x. map (\<lambda>x1. map (\<lambda>y1. g x x1 y1) [0..<W]) [0..<H]) t)
            = Some (sum_list xs / real (length xs))"
    using ne unfolding xs_def by (simp add: torch_mean_def Let_def)
  {
    assume "\<forall>x\<in>set t. \<forall>x1<H. \<forall>y1<W. 0 \<le> g x x1 y1"
    then have "\<forall>v\<in>set xs. 0 \<le> v" using mem by blast
    then have "0 \<le> sum_list xs" by (simp add: sum_list_nonneg)
    then show "\<exists>v. torch_mean (map (\<lambda>x. map (\<lambda>x1. map (\<lambda>y1. g x x1 y1) [0..<W]) [0..<H]) t) = Some v
              \<and> 0 \<le> v"
      unfolding tm by simp
  }
  {
    assume "\<forall>x\<in>set t. \<forall>x1<H. \<forall>y1<W. g x x1 y1 = 0"
    then have "\<forall>v\<in>set xs. v = 0" using mem by blast
    then have "sum_list xs = 0" by (induction xs) auto
    then show "torch_mean (map (\<lambda>x. map (\<lambda>x1. map (\<lambda>y1. g x x1 y1) [0..<W]) [0..<H]) t) = Some 0"
      unfolding tm by simp
  }
qed

lemma mean_attention_distance_wf:
  assumes "images \<noteq> []" and "shape4 (last images) = (d, c, nh * ph, nw * pw)"
    and "0 < ph" "0 < pw" and "attn_maps \<noteq> []" and "0 < heads"
    and "\<forall>t\<in>set attn_maps. t \<noteq> []
           \<and> has_shape4 (length t) heads (Suc (nh * nw)) (Suc (nh * nw)) t"
  shows "mean_attention_distance ph pw images attn_maps
         = Inr (map (\<lambda>t. map (\<lambda>j. torch_mean (sum_last2 (map (head_weighted nh nw ph pw j) t)))
                       [0..<heads]) attn_maps)"
proof -
  obtain image rest where rv: "rev images = image # rest" and im: "image = last images"
    using assms(1) by (cases images rule: rev_cases) auto
  obtain a0 as where am: "attn_maps = a0 # as" using assms(5) by (cases attn_maps) auto
  have a0: "a0 \<noteq> []" "has_shape4 (length a0) heads (Suc (nh * nw)) (Suc (nh * nw)) a0"
    using assms(7) am by simp_all
  then obtain x xs where "a0 = x # xs" by (cases a0) auto
  then have nhd: "extent1 a0 = heads" using a0(2)
    by (auto simp: extent1_def has_shape4_def has_shape3_def)
  have inner: "traverse (\<lambda>j. head_distance nh nw ph pw (nh * ph) (nw * pw)
                  (pixel_dist_matrix (nh * ph) (nw * pw)) (attn_maps ! i) j) [0..<heads]
        = Inr (map (\<lambda>j. torch_mean (sum_last2 (map (head_weighted nh nw ph pw j) (attn_maps ! i))))
                 [0..<heads])"
    if i: "i < length attn_maps" for i
  proof (rule traverse_ok, rule ballI)
    fix j assume "j \<in> set [0..<heads]"
    then have j: "j < heads" by simp
    have t: "attn_maps ! i \<noteq> []"
      "has_shape4 (length (attn_maps ! i)) heads (Suc (nh * nw)) (Suc (nh * nw)) (attn_maps ! i)"
      using assms(7) i by simp_all
    show "head_distance nh nw ph pw (nh * ph) (nw * pw)
            (pixel_dist_matrix (nh * ph) (nw * pw)) (attn_maps ! i) j
          = Inr (torch_mean (sum_last2 (map (head_weighted nh nw ph pw j) (attn_maps ! i))))"
      using t(2) _ j by (rule head_distance_wf) (use t(1) in simp)
  qed
  have "traverse (\<lambda>i. traverse (\<lambda>j. head_distance nh nw ph pw (nh * ph) (nw * pw)
                  (pixel_dist_matrix (nh * ph) (nw * pw)) (attn_maps ! i) j) [0..<heads])
          [0..<length attn_maps]
        = Inr (map (\<lambda>i. map (\<lambda>j. torch_mean (sum_last2
                   (map (head_weighted nh nw ph pw j) (attn_maps ! i)))) [0..<heads])
                 [0..<length attn_maps])"
    by (rule traverse_ok) (simp add: inner)
  also have "map (\<lambda>i. map (\<lambda>j. torch_mean (sum_last2
                   (map (head_weighted nh nw ph pw j) (attn_maps ! i)))) [0..<heads])
                 [0..<length attn_maps]
      = map (\<lambda>t. map (\<lambda>j. torch_mean (sum_last2 (map (head_weighted nh nw ph pw j) t)))
                       [0..<heads]) attn_maps"
    by (intro nth_equalityI) simp_all
  finally have tr: "traverse (\<lambda>i. traverse (\<lambda>j. head_distance nh nw ph pw (nh * ph) (nw * pw)
                  (pixel_dist_matrix (nh * ph) (nw * pw)) (attn_maps ! i) j) [0..<heads])
          [0..<length attn_maps]
      = Inr (map (\<lambda>t. map (\<lambda>j. torch_mean (sum_last2 (map (head_weighted nh nw ph pw j) t)))
                       [0..<heads]) attn_maps)" .
  have sh: "shape4 image = (d, c, nh * ph, nw * pw)" using assms(2) im by simp
  show ?thesis
    unfolding mean_attention_distance_def rv
    using assms(3,4) nhd tr by (simp add: sh am [symmetric] Let_def) (simp add: am)
qed

lemma well_formed_runD:
  assumes "well_formed_run model dataloader nh nw heads"
  shows "attention_modules model \<noteq> []"
    and "\<forall>m\<in>set (attention_modules model). cache_attn_map m = []"
    and "dataloader \<noteq> []"
    and "0 < patch_height model" "0 < patch_width model" "0 < nh" "0 < nw" "0 < heads"
    and "\<And>img y. (img, y) \<in> set dataloader \<Longrightarrow>
           img \<noteq> [] \<and> 0 < extent1 img
           \<and> has_shape4 (length img) (extent1 img)
                 (nh * patch_height model) (nw * patch_width model) img"
    and "\<And>img y l. (img, y) \<in> set dataloader \<Longrightarrow> l < length (attention_modules model) \<Longrightarrow>
           has_shape4 (length img) heads (Suc (nh * nw)) (Suc (nh * nw)) (attention model l img)"
  using assms unfolding well_formed_run_def list_all_iff by auto

lemma cached_samples:
  assumes "well_formed_run model dataloader nh nw heads"
    and "l < length (attention_modules model)"
    and "x \<in> set (concat (map (\<lambda>(img, _). attention model l img) dataloader))"
  shows "\<exists>img y. (img, y) \<in> set dataloader \<and> x \<in> set (attention model l img)
                \<and> has_shape3 heads (Suc (nh * nw)) (Suc (nh * nw)) x"
proof -
  from assms(3) obtain img y where m: "(img, y) \<in> set dataloader" "x \<in> set (attention model l img)"
    by auto
  have "has_shape4 (length img) heads (Suc (nh * nw)) (Suc (nh * nw)) (attention model l img)"
    using assms(1) m(1) assms(2) by (rule well_formed_runD(10))
  then have "has_shape3 heads (Suc (nh * nw)) (Suc (nh * nw)) x"
    using m(2) by (simp add: has_shape4_def)
  then show ?thesis using m by blast
qed

lemma get_attention_distance_wf:
  assumes wf: "well_formed_run model dataloader nh nw heads"
  shows "fst (get_attention_distance model dataloader)
         = Inr (map (\<lambda>l. map (\<lambda>j. torch_mean (sum_last2
                   (map (head_weighted nh nw (patch_height model) (patch_width model) j)
                      (concat (map (\<lambda>(img, _). attention model l img) dataloader)))))
                 [0..<heads]) [0..<length (attention_modules model)])"
proof -
  note d = well_formed_runD [OF wf]
  let ?L = "length (attention_modules model)"
  let ?G = "\<lambda>l. concat (map (\<lambda>(img, _). attention model l img) dataloader)"
  let ?T = "Suc (nh * nw)"
  let ?ms = "attention_modules (run_encoder (enable_all model) dataloader)"
  have att: "attention model l img \<noteq> []
      \<and> has_shape4 (length (attention model l img)) heads ?T ?T (attention model l img)"
    if "(img, y) \<in> set dataloader" "l < ?L" for img y l
  proof -
    have "has_shape4 (length img) heads ?T ?T (attention model l img)"
      using that by (rule d(10))
    moreover have "img \<noteq> []" using d(9) that(1) by blast
    ultimately show ?thesis by (auto simp: has_shape4_def)
  qed
  have "fst (retrieve_cached id ?ms) = Inr (map (\<lambda>l. id (?G l)) [0..<?L])"
    using d(2,3,8) by (rule retrieval_after_run [where n = ?T and k = ?T]) (use att in auto)
  then obtain ms' where rc: "retrieve_cached id ?ms = (Inr (map ?G [0..<?L]), ms')"
    by (cases "retrieve_cached id ?ms") simp
  have G: "?G l \<noteq> [] \<and> has_shape4 (length (?G l)) heads ?T ?T (?G l)" if l: "l < ?L" for l
  proof
    obtain p ps where dl: "dataloader = p # ps" using d(3) by (cases dataloader) auto
    obtain img y where p: "p = (img, y)" by (cases p)
    have "attention model l img \<noteq> []" using att [of img y l] l dl p by simp
    then show "?G l \<noteq> []" unfolding dl p by simp
    show "has_shape4 (length (?G l)) heads ?T ?T (?G l)"
      using att l by (intro has_shape4_concat) auto
  qed
  have im: "map fst dataloader \<noteq> []" using d(3) by simp
  obtain img y where last: "last dataloader = (img, y)" by (cases "last dataloader")
  then have mem: "(img, y) \<in> set dataloader" using d(3) last_in_set by metis
  have li: "last (map fst dataloader) = img" using d(3) last by (simp add: last_map)
  have "shape4 img = (length img, extent1 img, nh * patch_height model, nw * patch_width model)"
    using d(9) [OF mem] d(4,6) by (intro shape4_wf) auto
  then have sh: "shape4 (last (map fst dataloader))
      = (length img, extent1 img, nh * patch_height model, nw * patch_width model)"
    unfolding li .
  have ne: "map ?G [0..<?L] \<noteq> []" using d(1) by simp
  have "mean_attention_distance (patch_height model) (patch_width model)
          (map fst dataloader) (map ?G [0..<?L])
        = Inr (map (\<lambda>t. map (\<lambda>j. torch_mean (sum_last2
                  (map (head_weighted nh nw (patch_height model) (patch_width model) j) t)))
                       [0..<heads]) (map ?G [0..<?L]))"
    using im sh d(4,5) ne d(8) by (rule mean_attention_distance_wf) (use G in auto)
  then show ?thesis
    by (simp add: get_attention_distance_def Let_def rc comp_def)
qed

text \<open>
  Claim C10. On a well-formed run whose cached attention tensors have only nonnegative
  entries, \<open>get_attention_distance\<close> returns a matrix with one row per layer and one entry
  per head, and every entry is a nonnegative number.
\<close>

theorem mean_distance_nonnegative:
  assumes wf: "well_formed_run model dataloader nh nw heads"
    and nonneg: "cached_all nonnegative4 model dataloader"
  shows "\<exists>M. fst (get_attention_distance model dataloader) = Inr M
            \<and> length M = length (attention_modules model)
            \<and> (\<forall>row\<in>set M. length row = heads \<and> (\<forall>e\<in>set row. \<exists>v. e = Some v \<and> 0 \<le> v))"
proof -
  note d = well_formed_runD [OF wf]
  let ?L = "length (attention_modules model)"
  let ?G = "\<lambda>l. concat (map (\<lambda>(img, _). attention model l img) dataloader)"
  let ?ph = "patch_height model" and ?pw = "patch_width model"
  have entry: "\<exists>v. torch_mean (sum_last2 (map (head_weighted nh nw ?ph ?pw j) (?G l))) = Some v
                 \<and> 0 \<le> v"
    if l: "l < ?L" and j: "j < heads" for l j
    unfolding sum_last2_weighted
  proof (rule torch_mean_tabulated(1), goal_cases)
    case 1
    obtain p ps where dl: "dataloader = p # ps" using d(3) by (cases dataloader) auto
    obtain img y where p: "p = (img, y)" by (cases p)
    have "has_shape4 (length img) heads (Suc (nh * nw)) (Suc (nh * nw)) (attention model l img)"
      using d(10) [of img y l] l dl p by simp
    moreover have "img \<noteq> []" using d(9) [of img y] dl p by simp
    ultimately have "attention model l img \<noteq> []" by (auto simp: has_shape4_def)
    then show ?case unfolding dl p by simp
  next
    case 2
    show ?case using d(4,6) by simp
  next
    case 3
    show ?case using d(5,7) by simp
  next
    case 4
    show ?case
    proof (intro ballI allI impI sum_list_nonneg)
      fix x x1 y1 v
      assume x: "x \<in> set (?G l)" and r1: "x1 < nh * ?ph" "y1 < nw * ?pw"
        and v: "v \<in> set (map (\<lambda>x2. sum_list (map (\<lambda>y2.
           x ! j ! Suc ((x1 div ?ph) * nw + y1 div ?pw) ! Suc ((x2 div ?ph) * nw + y2 div ?pw)
           * sqrt (real_of_int ((int x1 - int x2)\<^sup>2 + (int y1 - int y2)\<^sup>2)))
         [0..<nw * ?pw])) [0..<nh * ?ph])"
      from cached_samples [OF wf l x] obtain img y where
        m: "(img, y) \<in> set dataloader" "x \<in> set (attention model l img)"
        and shx: "has_shape3 heads (Suc (nh * nw)) (Suc (nh * nw)) x" by blast
      have "nonnegative4 (attention model l img)"
        using nonneg m(1) l unfolding cached_all_def list_all_iff by auto
      then have pos: "\<forall>h\<in>set x. \<forall>r\<in>set h. \<forall>v\<in>set r. 0 \<le> v"
        using m(2) unfolding nonnegative4_def by blast
      have q1: "(x1 div ?ph) * nw + y1 div ?pw < nh * nw" using r1 by (rule patch_index_lt)
      have tm: "0 \<le> x ! j ! Suc ((x1 div ?ph) * nw + y1 div ?pw)
                      ! Suc ((x2 div ?ph) * nw + y2 div ?pw)"
        if r2: "x2 < nh * ?ph" "y2 < nw * ?pw" for x2 y2
      proof -
        have q2: "(x2 div ?ph) * nw + y2 div ?pw < nh * nw" using r2 by (rule patch_index_lt)
        have "x ! j \<in> set x" using shx j by (simp add: has_shape3_def)
        moreover have "x ! j ! Suc ((x1 div ?ph) * nw + y1 div ?pw) \<in> set (x ! j)"
          using has_shape3_nth(1) [OF shx j] q1 by simp
        moreover have "x ! j ! Suc ((x1 div ?ph) * nw + y1 div ?pw)
                      ! Suc ((x2 div ?ph) * nw + y2 div ?pw)
             \<in> set (x ! j ! Suc ((x1 div ?ph) * nw + y1 div ?pw))"
          using has_shape3_nth(2) [OF shx j, of "Suc ((x1 div ?ph) * nw + y1 div ?pw)"] q1 q2
          by simp
        ultimately show ?thesis using pos by blast
      qed
      from v obtain x2 where x2: "x2 < nh * ?ph" and veq: "v = sum_list (map (\<lambda>y2.
           x ! j ! Suc ((x1 div ?ph) * nw + y1 div ?pw) ! Suc ((x2 div ?ph) * nw + y2 div ?pw)
           * sqrt (real_of_int ((int x1 - int x2)\<^sup>2 + (int y1 - int y2)\<^sup>2)))
         [0..<nw * ?pw])" by auto
      show "0 \<le> v" unfolding veq using tm [OF x2]
        by (intro sum_list_nonneg) auto
    qed
  qed
  show ?thesis
    unfolding get_attention_distance_wf [OF wf] using entry by auto
qed

theorem mean_distance_nonnegative_witness:
  "well_formed_run unit_patch_model two_pixel_batch 1 2 1
   \<and> cached_all nonnegative4 unit_patch_model two_pixel_batch
   \<and> (\<exists>M. fst (get_attention_distance unit_patch_model two_pixel_batch) = Inr M
          \<and> length M = 1
          \<and> (\<forall>row\<in>set M. length row = 1 \<and> (\<forall>e\<in>set row. \<exists>v. e = Some v \<and> 0 \<le> v)))"
proof -
  have wf: "well_formed_run unit_patch_model two_pixel_batch 1 2 1"
    by (simp add: well_formed_run_def has_shape4_def has_shape3_def extent1_def)
  have nn: "cached_all nonnegative4 unit_patch_model two_pixel_batch"
    by (simp add: cached_all_def nonnegative4_def)
  show ?thesis
    using wf nn mean_distance_nonnegative [OF wf nn] by simp
qed

lemma sum_list_zero: "\<forall>x\<in>set xs. f x = 0 \<Longrightarrow> sum_list (map f xs) = (0::real)"
  by (induction xs) simp_all

lemma grid_index_inj:
  assumes "x1 * nw + y1 = x2 * nw + y2" "y1 < nw" "y2 < (nw::nat)"
  shows "x1 = x2 \<and> y1 = y2"
proof -
  have "(x1 * nw + y1) div nw = x1" "(x2 * nw + y2) div nw = x2"
       "(x1 * nw + y1) mod nw = y1" "(x2 * nw + y2) mod nw = y2"
    using assms(2,3) by simp_all
  then show ?thesis using assms(1) by metis
qed

text \<open>
  Claim C2, as amended. When every cached attention matrix is the identity on the patch
  tokens and every patch is a single pixel, every mean distance is 0.
\<close>

theorem identity_attention_unit_patches:
  assumes wf: "well_formed_run model dataloader nh nw heads"
    and unit: "patch_height model = 1" "patch_width model = 1"
    and ident: "cached_all (patch_attention_is_identity (nh * nw)) model dataloader"
  shows "fst (get_attention_distance model dataloader)
         = Inr (replicate (length (attention_modules model)) (replicate heads (Some 0)))"
proof -
  note d = well_formed_runD [OF wf]
  let ?L = "length (attention_modules model)"
  let ?G = "\<lambda>l. concat (map (\<lambda>(img, _). attention model l img) dataloader)"
  have entry: "torch_mean (sum_last2 (map (head_weighted nh nw 1 1 j) (?G l))) = Some 0"
    if l: "l < ?L" and j: "j < heads" for l j
    unfolding sum_last2_weighted
  proof (rule torch_mean_tabulated(2), goal_cases)
    case 1
    obtain p ps where dl: "dataloader = p # ps" using d(3) by (cases dataloader) auto
    obtain img y where p: "p = (img, y)" by (cases p)
    have "has_shape4 (length img) heads (Suc (nh * nw)) (Suc (nh * nw)) (attention model l img)"
      using d(10) [of img y l] l dl p by simp
    moreover have "img \<noteq> []" using d(9) [of img y] dl p by simp
    ultimately have "attention model l img \<noteq> []" by (auto simp: has_shape4_def)
    then show ?case unfolding dl p by simp
  next
    case 2
    show ?case using d(6) by simp
  next
    case 3
    show ?case using d(7) by simp
  next
    case 4
    show ?case
    proof (intro ballI allI impI)
      fix x x1 y1
      assume x: "x \<in> set (?G l)" and r1: "x1 < nh * 1" "y1 < nw * 1"
      from cached_samples [OF wf l x] obtain img y where
        m: "(img, y) \<in> set dataloader" "x \<in> set (attention model l img)"
        and shx: "has_shape3 heads (Suc (nh * nw)) (Suc (nh * nw)) x" by blast
      have "patch_attention_is_identity (nh * nw) (attention model l img)"
        using ident m(1) l unfolding cached_all_def list_all_iff by auto
      moreover have "x ! j \<in> set x" using shx j by (simp add: has_shape3_def)
      ultimately have eq: "map (drop 1) (drop 1 (x ! j)) = eye (nh * nw)"
        using m(2) unfolding patch_attention_is_identity_def by blast
      have id: "x ! j ! Suc q ! Suc k = (if q = k then 1 else 0)"
        if "q < nh * nw" "k < nh * nw" for q k
      proof -
        have l1: "length (x ! j) = Suc (nh * nw)" using shx j by (rule has_shape3_nth(1))
        have l2: "length (x ! j ! Suc q) = Suc (nh * nw)"
          using has_shape3_nth(2) [OF shx j, of "Suc q"] that by simp
        have "map (drop 1) (drop 1 (x ! j)) ! q ! k = x ! j ! Suc q ! Suc k"
          using that l1 l2 by simp
        then show ?thesis unfolding eq using that by (simp add: eye_nth)
      qed
      have tm: "x ! j ! Suc ((x1 div 1) * nw + y1 div 1) ! Suc ((x2 div 1) * nw + y2 div 1)
           * sqrt (real_of_int ((int x1 - int x2)\<^sup>2 + (int y1 - int y2)\<^sup>2)) = 0"
        if r2: "x2 < nh * 1" "y2 < nw * 1" for x2 y2
      proof -
        have q: "x1 * nw + y1 < nh * nw" "x2 * nw + y2 < nh * nw"
          using patch_index_lt [OF r1] patch_index_lt [OF r2] by simp_all
        show ?thesis
        proof (cases "x1 * nw + y1 = x2 * nw + y2")
          case True
          then have "x1 = x2 \<and> y1 = y2" using r1 r2 by (intro grid_index_inj) simp_all
          then show ?thesis by simp
        next
          case False
          then show ?thesis using id [OF q] by simp
        qed
      qed
      show "sum_list (map (\<lambda>x2. sum_list (map (\<lambda>y2.
           x ! j ! Suc ((x1 div 1) * nw + y1 div 1) ! Suc ((x2 div 1) * nw + y2 div 1)
           * sqrt (real_of_int ((int x1 - int x2)\<^sup>2 + (int y1 - int y2)\<^sup>2)))
         [0..<nw * 1])) [0..<nh * 1]) = 0"
      proof (rule sum_list_zero, rule ballI, rule sum_list_zero, rule ballI)
        fix x2 y2 assume "x2 \<in> set [0..<nh * 1]" "y2 \<in> set [0..<nw * 1]"
        then have "x2 < nh * 1" "y2 < nw * 1" by simp_all
        then show "x ! j ! Suc ((x1 div 1) * nw + y1 div 1) ! Suc ((x2 div 1) * nw + y2 div 1)
           * sqrt (real_of_int ((int x1 - int x2)\<^sup>2 + (int y1 - int y2)\<^sup>2)) = 0"
          by (rule tm)
      qed
    qed
  qed
  have "map (\<lambda>l. map (\<lambda>j. torch_mean (sum_last2
                   (map (head_weighted nh nw 1 1 j) (?G l)))) [0..<heads]) [0..<?L]
        = replicate ?L (replicate heads (Some 0))"
    by (intro nth_equalityI) (simp_all add: entry del: One_nat_def)
  then show ?thesis
    unfolding get_attention_distance_wf [OF wf] unit by (simp del: One_nat_def)
qed

theorem identity_attention_unit_patches_witness:
  "well_formed_run unit_patch_model two_pixel_batch 1 2 1
   \<and> patch_height unit_patch_model = 1 \<and> patch_width unit_patch_model = 1
   \<and> cached_all (patch_attention_is_identity (1 * 2)) unit_patch_model two_pixel_batch
   \<and> fst (get_attention_distance unit_patch_model two_pixel_batch) = Inr [[Some 0]]"
proof -
  have wf: "well_formed_run unit_patch_model two_pixel_batch 1 2 1"
    by (simp add: well_formed_run_def has_shape4_def has_shape3_def extent1_def)
  have ident: "cached_all (patch_attention_is_identity (1 * 2)) unit_patch_model two_pixel_batch"
    by (simp add: cached_all_def patch_attention_is_identity_def eye_def upt_2)
  show ?thesis
    using wf ident identity_attention_unit_patches [OF wf _ _ ident] by simp
qed

text \<open>
  Claim C2 as stated fails for a patch of two pixels: the attention on the single patch
  token is the identity, and the mean distance is 1, since each pixel attends to the other
  pixel of its patch.
\<close>

theorem identity_attention_wide_patch_counterexample:
  "well_formed_run wide_patch_model two_pixel_batch 1 1 1
   \<and> cached_all (patch_attention_is_identity (1 * 1)) wide_patch_model two_pixel_batch
   \<and> fst (get_attention_distance wide_patch_model two_pixel_batch) = Inr [[Some 1]]
   \<and> fst (get_attention_distance wide_patch_model two_pixel_batch) \<noteq> Inr [[Some 0]]"
proof -
  have wf: "well_formed_run wide_patch_model two_pixel_batch 1 1 1"
    by (simp add: well_formed_run_def has_shape4_def has_shape3_def extent1_def)
  have ident: "cached_all (patch_attention_is_identity (1 * 1)) wide_patch_model two_pixel_batch"
    by (simp add: cached_all_def patch_attention_is_identity_def eye_def)
  have "fst (get_attention_distance wide_patch_model two_pixel_batch) = Inr [[Some 1]]"
    by (simp add: get_attention_distance_def run_encoder_def enable_all_def
        transformer_encoder_def enumerate_eq_zip record_attn_def enable_cache_def torch_cat_def
        shape4_def shape3_def extent1_def clear_cache_def disable_cache_def
        mean_attention_distance_def pixel_dist_matrix_def head_distance_def head_patch_attn_def
        einops_repeat_pairs_def weight_by_distance_def bdim_def bidx_def sum_last2_def
        torch_mean_def upt_rec)
  then show ?thesis using wf ident by simp
qed

end
